theory Spec2Isabelle
  imports Main "HOL-Library.AList" "HOL-Library.Char_ord" "HOL-Library.List_Lexorder"
begin

section \<open>Strings and POSIX paths\<close>

text \<open>
  The module \<^verbatim>\<open>mlflow/pyfunc/__init__.py\<close> manipulates paths only through Python's
  \<^verbatim>\<open>os.path\<close> (here: \<^verbatim>\<open>posixpath\<close>) and a few string methods. They are written out
  below the way the standard library computes them, on \<open>string\<close> (a list of characters).
\<close>

definition startswith :: "string \<Rightarrow> string \<Rightarrow> bool" where
  "startswith s p = (take (length p) s = p)"

definition endswith :: "string \<Rightarrow> string \<Rightarrow> bool" where
  "endswith s p = (length p \<le> length s \<and> drop (length s - length p) s = p)"

text \<open>\<^verbatim>\<open>s.split(sep)\<close> for a one-character separator: the pieces between separators, empty pieces kept.\<close>

fun str_split :: "char \<Rightarrow> string \<Rightarrow> string list" where
  "str_split sep [] = [[]]"
| "str_split sep (c # cs) =
     (if c = sep then [] # str_split sep cs
      else (case str_split sep cs of [] \<Rightarrow> [[c]] | w # ws \<Rightarrow> (c # w) # ws))"

text \<open>\<^verbatim>\<open>sep.join(xs)\<close>.\<close>

fun str_join :: "string \<Rightarrow> string list \<Rightarrow> string" where
  "str_join sep [] = []"
| "str_join sep [x] = x"
| "str_join sep (x # y # ys) = x @ sep @ str_join sep (y # ys)"

text \<open>
  \<^verbatim>\<open>posixpath.join(a, b)\<close>: an absolute second component replaces the first; otherwise
  the two are put together with exactly one separator between them (none when the first
  is empty or already ends with one).
\<close>

definition os_path_join :: "string \<Rightarrow> string \<Rightarrow> string" where
  "os_path_join a b =
     (if startswith b ''/'' then b
      else if a = [] \<or> endswith a ''/'' then a @ b
      else a @ ''/'' @ b)"

text \<open>\<^verbatim>\<open>posixpath.basename(p)\<close>: what follows the last separator.\<close>

definition os_path_basename :: "string \<Rightarrow> string" where
  "os_path_basename p = rev (takeWhile (\<lambda>c. c \<noteq> CHR ''/'') (rev p))"

definition os_path_isabs :: "string \<Rightarrow> bool" where
  "os_path_isabs s = startswith s ''/''"

text \<open>
  The loop of \<^verbatim>\<open>posixpath.normpath\<close> over the components: empty and \<^verbatim>\<open>.\<close> components
  are skipped, \<^verbatim>\<open>..\<close> removes the component before it where there is one to remove.
\<close>

fun normpath_loop :: "bool \<Rightarrow> string list \<Rightarrow> string list \<Rightarrow> string list" where
  "normpath_loop initial_slashes [] new_comps = new_comps"
| "normpath_loop initial_slashes (part # comps) new_comps =
     (if part = [] \<or> part = ''.'' then normpath_loop initial_slashes comps new_comps
      else if part \<noteq> ''..'' \<or> (\<not> initial_slashes \<and> new_comps = [])
              \<or> (new_comps \<noteq> [] \<and> last new_comps = ''..'')
        then normpath_loop initial_slashes comps (new_comps @ [part])
      else if new_comps \<noteq> [] then normpath_loop initial_slashes comps (butlast new_comps)
      else normpath_loop initial_slashes comps new_comps)"

definition os_path_normpath :: "string \<Rightarrow> string" where
  "os_path_normpath path =
     (if path = [] then ''.''
      else
        let initial_slashes =
              (if startswith path ''/''
               then (if startswith path ''//'' \<and> \<not> startswith path ''///'' then 2 else 1)
               else (0::nat));
            comps = normpath_loop (initial_slashes \<noteq> 0) (str_split (CHR ''/'') path) [];
            joined = replicate initial_slashes (CHR ''/'') @ str_join ''/'' comps
        in if joined = [] then ''.'' else joined)"

text \<open>\<^verbatim>\<open>os.path.abspath(path)\<close>, the current working directory given as \<open>cwd\<close>.\<close>

definition os_path_abspath :: "string \<Rightarrow> string \<Rightarrow> string" where
  "os_path_abspath cwd path =
     os_path_normpath (if os_path_isabs path then path else os_path_join cwd path)"

text \<open>\<^verbatim>\<open>str(i)\<close> for a non-negative integer: its decimal digits.\<close>

definition digit_char :: "nat \<Rightarrow> char" where
  "digit_char d = ''0123456789'' ! d"

function str_nat :: "nat \<Rightarrow> string" where
  "str_nat n = (if n < 10 then [digit_char n] else str_nat (n div 10) @ [digit_char (n mod 10)])"
  by pat_completeness auto
termination
  by (relation "measure id") auto

declare str_nat.simps [simp del]

section \<open>Errors, manifest, process state\<close>

text \<open>
  Every \<^verbatim>\<open>raise\<close> of the module is \<^verbatim>\<open>raise Exception(message)\<close>: the source has no
  exception classes of its own, so the two failures it raises itself are told apart by
  their message. The other constructors are what the operating system calls and the
  dictionary lookups of the module can raise.
\<close>

datatype error =
    Exception string
  | KeyError string
  | FileExistsError string
  | FileNotFoundError string
  | NotADirectoryError string
  | IsADirectoryError string
  | SameFileError string
  | RecursionError string
  | ImportError string

definition FLAVOR_NAME :: string where "FLAVOR_NAME = ''python_function''"
definition MAIN :: string where "MAIN = ''loader_module''"
definition CODE :: string where "CODE = ''code''"
definition DATA :: string where "DATA = ''data''"
definition ENV :: string where "ENV = ''env''"
definition PY_VERSION :: string where "PY_VERSION = ''python_version''"

text \<open>
  A flavor configuration is a dictionary from field names to strings; the manifest
  (\<^verbatim>\<open>mlflow.models.Model\<close>) holds the dictionary of flavors.
\<close>

type_synonym conf = "string \<rightharpoonup> string"

record model =
  flavors :: "string \<rightharpoonup> conf"

text \<open>
  The filesystem is a tree: a file with its contents, or a directory with its entries in
  listing order. There are no symbolic links. A node is addressed by the list of its
  component names below the root.
\<close>

datatype node = File string | Dir "(string \<times> node) list"

record pystate =
  fs :: node
  cwd :: string
  sys_path :: "string list"
  stderr :: "string list"

fun lookup :: "node \<Rightarrow> string list \<Rightarrow> node option" where
  "lookup n [] = Some n"
| "lookup (File _) (c # cs) = None"
| "lookup (Dir es) (c # cs) = (case map_of es c of None \<Rightarrow> None | Some n \<Rightarrow> lookup n cs)"

text \<open>
  Looking a path up (\<^verbatim>\<open>stat\<close>, behind \<^verbatim>\<open>os.path.exists\<close>, \<^verbatim>\<open>isfile\<close>, \<^verbatim>\<open>isdir\<close> and
  \<^verbatim>\<open>os.listdir\<close>) follows it component by component from the root, a relative path from the
  working directory: every component is taken in a directory that exists, \<^verbatim>\<open>..\<close> goes to
  the parent, empty and \<^verbatim>\<open>.\<close> components stay. So \<^verbatim>\<open>nosuch/../m\<close> and \<^verbatim>\<open>a.py/\<close> do not
  exist when \<^verbatim>\<open>nosuch\<close> is missing and \<^verbatim>\<open>a.py\<close> is a file. The empty path does not exist.
\<close>

fun walk :: "string \<Rightarrow> node \<Rightarrow> string list \<Rightarrow> string list \<Rightarrow> error + string list" where
  "walk p root cur [] = Inr cur"
| "walk p root cur (c # cs) =
     (case lookup root cur of
        None \<Rightarrow> Inl (FileNotFoundError p)
      | Some (File _) \<Rightarrow> Inl (NotADirectoryError p)
      | Some (Dir _) \<Rightarrow>
          if c = [] \<or> c = ''.'' then walk p root cur cs
          else if c = ''..'' then walk p root (butlast cur) cs
          else walk p root (cur @ [c]) cs)"

definition stat_result :: "pystate \<Rightarrow> string \<Rightarrow> error + node" where
  "stat_result s p =
     (if p = [] then Inl (FileNotFoundError p)
      else (case walk p (fs s) []
                   (str_split (CHR ''/'') (if os_path_isabs p then p else os_path_join (cwd s) p)) of
              Inl err \<Rightarrow> Inl err
            | Inr cs \<Rightarrow> (case lookup (fs s) cs of
                           None \<Rightarrow> Inl (FileNotFoundError p)
                         | Some n \<Rightarrow> Inr n)))"

definition stat :: "pystate \<Rightarrow> string \<Rightarrow> node option" where
  "stat s p = (case stat_result s p of Inl err \<Rightarrow> None | Inr n \<Rightarrow> Some n)"

text \<open>
  The calls that create entries address their target by the components of the lexically
  normalised path (\<^verbatim>\<open>os.path.abspath\<close>): for a path whose directory part exists this is the
  node the walk above reaches. A target written through a missing directory and \<^verbatim>\<open>..\<close> is
  not told apart from the normalised one.
\<close>

definition resolve :: "pystate \<Rightarrow> string \<Rightarrow> string list" where
  "resolve s p = filter (\<lambda>c. c \<noteq> []) (str_split (CHR ''/'') (os_path_abspath (cwd s) p))"

definition os_path_exists :: "pystate \<Rightarrow> string \<Rightarrow> bool" where
  "os_path_exists s p = (stat s p \<noteq> None)"

definition os_path_isfile :: "pystate \<Rightarrow> string \<Rightarrow> bool" where
  "os_path_isfile s p = (case stat s p of Some (File _) \<Rightarrow> True | _ \<Rightarrow> False)"

definition os_path_isdir :: "pystate \<Rightarrow> string \<Rightarrow> bool" where
  "os_path_isdir s p = (case stat s p of Some (Dir _) \<Rightarrow> True | _ \<Rightarrow> False)"

definition os_listdir :: "pystate \<Rightarrow> string \<Rightarrow> error + string list" where
  "os_listdir s p =
     (case stat_result s p of
        Inl err \<Rightarrow> Inl err
      | Inr (File _) \<Rightarrow> Inl (NotADirectoryError p)
      | Inr (Dir es) \<Rightarrow> Inr (map fst es))"

text \<open>
  What the module imports from the rest of the package and from the interpreter, and
  which is not part of this file: the running Python's version string and the helper that
  cuts a version to \<^verbatim>\<open>major.minor\<close>, the manifest's \<^verbatim>\<open>load\<close> and \<^verbatim>\<open>save\<close>, the
  tracking store's path lookup, and \<^verbatim>\<open>importlib.import_module\<close>, which resolves a module
  name against the search path of the moment and gives the module's \<^verbatim>\<open>load_pyfunc\<close>.
  They are parameters of the model; \<open>'h\<close> is the type of loaded model handles.
\<close>

record 'h env =
  PYTHON_VERSION :: string
  get_major_minor_py_version :: "string \<Rightarrow> string"
  Model_load :: "pystate \<Rightarrow> string \<Rightarrow> error + model"
  Model_save :: "model \<Rightarrow> string \<Rightarrow> pystate \<Rightarrow> error + pystate"
  get_model_log_dir :: "string \<Rightarrow> string \<Rightarrow> error + string"
  import_module :: "string list \<Rightarrow> string \<Rightarrow> error + (string \<Rightarrow> error + 'h)"

text \<open>Python's truth value of an optional string argument: \<^verbatim>\<open>None\<close> and \<^verbatim>\<open>''\<close> are false.\<close>

definition truthy :: "string option \<Rightarrow> bool" where
  "truthy v = (case v of None \<Rightarrow> False | Some x \<Rightarrow> x \<noteq> [])"

section \<open>Loading\<close>

text \<open>
  The statement \<^verbatim>\<open>if run_id: path = tracking.utils._get_model_log_dir(path, run_id)\<close>,
  with which \<^verbatim>\<open>_load_model_conf\<close>, \<^verbatim>\<open>load_pyfunc\<close> and \<^verbatim>\<open>spark_udf\<close> begin.
\<close>

definition model_log_path :: "'h env \<Rightarrow> string \<Rightarrow> string option \<Rightarrow> error + string" where
  "model_log_path e path run_id =
     (if truthy run_id
      then (case run_id of Some r \<Rightarrow> get_model_log_dir e path r | None \<Rightarrow> Inr path)
      else Inr path)"

definition flavor_not_found :: "string \<Rightarrow> error" where
  "flavor_not_found conf_path =
     Exception (''Format '' @ [CHR 0x27] @ FLAVOR_NAME @ [CHR 0x27]
                @ '' not found not in '' @ conf_path @ ''.'')"

definition load_model_conf :: "'h env \<Rightarrow> string \<Rightarrow> string option \<Rightarrow> pystate \<Rightarrow> error + conf" where
  "load_model_conf e path0 run_id s =
     (case model_log_path e path0 run_id of
        Inl err \<Rightarrow> Inl err
      | Inr path \<Rightarrow>
          (let conf_path = os_path_join path ''MLmodel'' in
           case Model_load e s conf_path of
             Inl err \<Rightarrow> Inl err
           | Inr m \<Rightarrow>
               (case flavors m FLAVOR_NAME of
                  None \<Rightarrow> Inl (flavor_not_found conf_path)
                | Some c \<Rightarrow> Inr c)))"

text \<open>\<^verbatim>\<open>_load_model_env\<close>: the \<^verbatim>\<open>env\<close> entry of the configuration, \<^verbatim>\<open>None\<close> when absent.\<close>

definition load_model_env :: "'h env \<Rightarrow> string \<Rightarrow> string option \<Rightarrow> pystate \<Rightarrow> error + string option" where
  "load_model_env e path run_id s =
     (case load_model_conf e path run_id s of Inl err \<Rightarrow> Inl err | Inr conf \<Rightarrow> Inr (conf ENV))"

text \<open>\<^verbatim>\<open>eprint\<close> writes one message to the diagnostic stream.\<close>

definition eprint :: "string \<Rightarrow> pystate \<Rightarrow> pystate" where
  "eprint msg s = s\<lparr>stderr := stderr s @ [msg]\<rparr>"

definition unknown_version_warning :: "'h env \<Rightarrow> string" where
  "unknown_version_warning e =
     ''The specified model does not have a specified Python version. It may be''
     @ '' incompatible with the version of Python that is currently running:''
     @ '' Python '' @ PYTHON_VERSION e"

definition version_mismatch_warning :: "'h env \<Rightarrow> string \<Rightarrow> string" where
  "version_mismatch_warning e model_version =
     ''The version of Python that the model was saved in, Python '' @ model_version
     @ '', differs''
     @ '' from the version of Python that is currently running, Python '' @ PYTHON_VERSION e
     @ '','' @ '' and may be incompatible''"

definition warn_potentially_incompatible_py_version_if_necessary ::
    "'h env \<Rightarrow> string option \<Rightarrow> pystate \<Rightarrow> pystate" where
  "warn_potentially_incompatible_py_version_if_necessary e model_py_version s =
     (case model_py_version of
        None \<Rightarrow> eprint (unknown_version_warning e) s
      | Some v \<Rightarrow>
          if get_major_minor_py_version e v \<noteq> get_major_minor_py_version e (PYTHON_VERSION e)
          then eprint (version_mismatch_warning e v) s
          else s)"

text \<open>The condition of the comprehension in \<^verbatim>\<open>_get_code_dirs\<close>.\<close>

definition keep_entry :: "string \<Rightarrow> bool" where
  "keep_entry x = (\<not> endswith x ''.py'' \<and> \<not> endswith x ''.pyc'' \<and> \<not> x = ''__pycache__'')"

definition get_code_dirs :: "pystate \<Rightarrow> string \<Rightarrow> string option \<Rightarrow> error + string list" where
  "get_code_dirs s src_code_path dst_code_path0 =
     (let dst_code_path =
            (case dst_code_path0 of
               None \<Rightarrow> src_code_path
             | Some d \<Rightarrow> if d = [] then src_code_path else d)
      in case os_listdir s src_code_path of
           Inl err \<Rightarrow> Inl err
         | Inr names \<Rightarrow> Inr [os_path_join dst_code_path x. x \<leftarrow> names, keep_entry x])"

text \<open>
  What a code directory contributes to the search path: the directory itself, then the
  entries kept from its listing, each joined to it.
\<close>

definition search_path_entries :: "string \<Rightarrow> string list \<Rightarrow> string list" where
  "search_path_entries code_path kept = code_path # map (os_path_join code_path) kept"

text \<open>
  \<^verbatim>\<open>load_pyfunc\<close> returns what the loader module's \<^verbatim>\<open>load_pyfunc\<close> returns, or the
  exception that ended it, together with the state it leaves: a warning already printed
  and a search path already extended stay so when a later step raises. The loader module
  itself is outside this file; its import sees the search path of that moment.
\<close>

definition load_pyfunc ::
    "'h env \<Rightarrow> string \<Rightarrow> string option \<Rightarrow> bool \<Rightarrow> pystate \<Rightarrow> (error + 'h) \<times> pystate" where
  "load_pyfunc e path0 run_id suppress_warnings s =
     (case model_log_path e path0 run_id of
        Inl err \<Rightarrow> (Inl err, s)
      | Inr path \<Rightarrow>
          (case load_model_conf e path None s of
             Inl err \<Rightarrow> (Inl err, s)
           | Inr conf \<Rightarrow>
               (let model_py_version = conf PY_VERSION;
                    s1 = (if \<not> suppress_warnings
                          then warn_potentially_incompatible_py_version_if_necessary
                                 e model_py_version s
                          else s)
                in case (case conf CODE of
                           None \<Rightarrow> Inr s1
                         | Some c \<Rightarrow>
                             if c \<noteq> [] then
                               (let code_path = os_path_join path c in
                                case get_code_dirs s1 code_path None of
                                  Inl err \<Rightarrow> Inl err
                                | Inr dirs \<Rightarrow>
                                    Inr (s1\<lparr>sys_path := [code_path] @ dirs @ sys_path s1\<rparr>))
                             else Inr s1) of
                     Inl err \<Rightarrow> (Inl err, s1)
                   | Inr s2 \<Rightarrow>
                       (let data_path = (case conf DATA of
                                           Some d \<Rightarrow> os_path_join path d
                                         | None \<Rightarrow> path)
                        in case conf MAIN of
                             None \<Rightarrow> (Inl (KeyError MAIN), s2)
                           | Some main \<Rightarrow>
                               (case import_module e (sys_path s2) main of
                                  Inl err \<Rightarrow> (Inl err, s2)
                                | Inr loader \<Rightarrow> (loader data_path, s2))))))"

section \<open>The deployment script\<close>

text \<open>
  \<^verbatim>\<open>loader_template.format(update_path=..., main=..., data_path=...)\<close>. The source puts
  the paths between single quotes as they are, without escaping.
\<close>

definition loader_template_format :: "string \<Rightarrow> string \<Rightarrow> string \<Rightarrow> string" where
  "loader_template_format update_path main data_path =
     [CHR 0x0A, CHR 0x0A] @ ''import importlib'' @ [CHR 0x0A] @ ''import os'' @ [CHR 0x0A]
     @ ''import sys'' @ [CHR 0x0A, CHR 0x0A] @ ''def load_pyfunc():'' @ [CHR 0x0A]
     @ ''    '' @ update_path @ ''return importlib.import_module('' @ [CHR 0x27] @ main
     @ [CHR 0x27] @ '').load_pyfunc('' @ [CHR 0x27] @ data_path @ [CHR 0x27] @ '')''
     @ [CHR 0x0A, CHR 0x0A]"

text \<open>
  The list the comprehension of \<^verbatim>\<open>get_module_loader_src\<close> runs over,
  \<^verbatim>\<open>[dst_code_path] + _get_code_dirs(src_code_path, dst_code_path)\<close>, for a recorded code
  entry \<open>c\<close>: the directories the script names.
\<close>

definition loader_src_code_dirs :: "pystate \<Rightarrow> string \<Rightarrow> string \<Rightarrow> string \<Rightarrow> error + string list" where
  "loader_src_code_dirs s src_path dst_path c =
     (let src_code_path = os_path_join src_path c;
          dst_code_path = os_path_join dst_path c
      in case get_code_dirs s src_code_path (Some dst_code_path) of
           Inl err \<Rightarrow> Inl err
         | Inr dirs \<Rightarrow> Inr ([dst_code_path] @ dirs))"

text \<open>The text \<^verbatim>\<open>"os.path.abspath('%s')" % x\<close> and the statement built from the list.\<close>

definition abspath_expr :: "string \<Rightarrow> string" where
  "abspath_expr x = ''os.path.abspath('' @ [CHR 0x27] @ x @ [CHR 0x27] @ '')''"

definition update_path_stmt :: "string list \<Rightarrow> string" where
  "update_path_stmt dirs =
     ''sys.path = '' @ (''['' @ str_join '','' (map abspath_expr dirs) @ '']'') @ '' + sys.path; ''"

definition get_module_loader_src :: "'h env \<Rightarrow> string \<Rightarrow> string \<Rightarrow> pystate \<Rightarrow> error + string" where
  "get_module_loader_src e src_path dst_path s =
     (let conf_path = os_path_join src_path ''MLmodel'' in
      case Model_load e s conf_path of
        Inl err \<Rightarrow> Inl err
      | Inr m \<Rightarrow>
          (case flavors m FLAVOR_NAME of
             None \<Rightarrow> Inl (flavor_not_found conf_path)
           | Some conf \<Rightarrow>
               (case (case conf CODE of
                        None \<Rightarrow> Inr []
                      | Some c \<Rightarrow>
                          if c \<noteq> [] then
                            (case loader_src_code_dirs s src_path dst_path c of
                               Inl err \<Rightarrow> Inl err
                             | Inr dirs \<Rightarrow> Inr (update_path_stmt dirs))
                          else Inr []) of
                  Inl err \<Rightarrow> Inl err
                | Inr update_path \<Rightarrow>
                    (let data_path = (case conf DATA of
                                        Some d \<Rightarrow> os_path_join dst_path d
                                      | None \<Rightarrow> dst_path)
                     in case conf MAIN of
                          None \<Rightarrow> Inl (KeyError MAIN)
                        | Some main \<Rightarrow> Inr (loader_template_format update_path main data_path)))))"

text \<open>
  Reading the emitted statement back. The source writes each directory between single
  quotes as it is; Python reads a single-quoted literal up to the next quote, and a
  backslash or a line break inside it does not stand for itself. \<open>parse_update_path\<close>
  reads a text of the shape \<^verbatim>\<open>sys.path = [os.path.abspath('d1'),...] + sys.path; \<close> whose
  literals are made of characters that stand for themselves, and gives the directories
  named; it gives \<open>None\<close> for a text that is not of this shape. The count \<open>n\<close> bounds the
  number of items read; the length of the text is always enough.
\<close>

definition literal_char :: "char \<Rightarrow> bool" where
  "literal_char ch =
     (ch \<noteq> CHR 0x27 \<and> ch \<noteq> CHR 0x5C \<and> ch \<noteq> CHR 0x0A \<and> ch \<noteq> CHR 0x0D \<and> ch \<noteq> CHR 0x00)"

fun after_prefix :: "string \<Rightarrow> string \<Rightarrow> string option" where
  "after_prefix [] text = Some text"
| "after_prefix (p # ps) [] = None"
| "after_prefix (p # ps) (ch # text) = (if p = ch then after_prefix ps text else None)"

fun read_literal :: "string \<Rightarrow> (string \<times> string) option" where
  "read_literal [] = None"
| "read_literal (ch # text) =
     (if ch = CHR 0x27 then Some ([], text)
      else if literal_char ch
        then (case read_literal text of
                None \<Rightarrow> None
              | Some (d, rest) \<Rightarrow> Some (ch # d, rest))
      else None)"

fun parse_abspath_items :: "nat \<Rightarrow> string \<Rightarrow> (string list \<times> string) option" where
  "parse_abspath_items 0 text = None"
| "parse_abspath_items (Suc n) text =
     (case after_prefix (''os.path.abspath('' @ [CHR 0x27]) text of
        None \<Rightarrow> None
      | Some t1 \<Rightarrow>
          (case read_literal t1 of
             None \<Rightarrow> None
           | Some (d, t2) \<Rightarrow>
               (case after_prefix '')'' t2 of
                  None \<Rightarrow> None
                | Some t3 \<Rightarrow>
                    (case after_prefix '','' t3 of
                       Some t4 \<Rightarrow>
                         (case parse_abspath_items n t4 of
                            None \<Rightarrow> None
                          | Some (ds, rest) \<Rightarrow> Some (d # ds, rest))
                     | None \<Rightarrow>
                         (case after_prefix '']'' t3 of
                            None \<Rightarrow> None
                          | Some t5 \<Rightarrow> Some ([d], t5))))))"

definition parse_update_path :: "string \<Rightarrow> string list option" where
  "parse_update_path stmt =
     (case after_prefix ''sys.path = ['' stmt of
        None \<Rightarrow> None
      | Some t \<Rightarrow>
          (case parse_abspath_items (length t) t of
             None \<Rightarrow> None
           | Some (dirs, rest) \<Rightarrow> if rest = '' + sys.path; '' then Some dirs else None))"

text \<open>
  The directories such a statement puts in front of the search path when the script runs
  with working directory \<open>wd\<close>: the ones it names, each made absolute.
\<close>

definition script_prepended_dirs :: "string \<Rightarrow> string \<Rightarrow> string list option" where
  "script_prepended_dirs wd stmt =
     (case parse_update_path stmt of
        None \<Rightarrow> None
      | Some dirs \<Rightarrow> Some (map (os_path_abspath wd) dirs))"

section \<open>The batched prediction wrapper\<close>

text \<open>
  The function \<^verbatim>\<open>predict(*args)\<close> inside \<^verbatim>\<open>spark_udf\<close>. A column is a value of type
  \<open>'c\<close>; \<^verbatim>\<open>pandas.DataFrame(schema, columns=columns)\<close> is the table whose columns are the
  listed labels in the listed order, each with the dictionary's entry for it (none where
  the dictionary has no such key); \<^verbatim>\<open>pandas.Series(result)\<close> keeps the sequence it is
  given. The cached model and its \<^verbatim>\<open>predict\<close> are parameters.
\<close>

type_synonym 'c dataframe = "(string \<times> 'c option) list"

datatype 'v series = Series "'v list"

definition pandas_DataFrame :: "(string \<rightharpoonup> 'c) \<Rightarrow> string list \<Rightarrow> 'c dataframe" where
  "pandas_DataFrame schema columns = map (\<lambda>label. (label, schema label)) columns"

definition predict_schema :: "'c list \<Rightarrow> (string \<rightharpoonup> 'c)" where
  "predict_schema args =
     foldl (\<lambda>d (i, arg). d(str_nat i \<mapsto> arg)) Map.empty (List.enumerate 0 args)"

definition predict_columns :: "'c list \<Rightarrow> string list" where
  "predict_columns args = [str_nat i. (i, _) \<leftarrow> List.enumerate 0 args]"

definition predict ::
    "(string \<Rightarrow> error + ('c dataframe \<Rightarrow> error + 'v list)) \<Rightarrow> string \<Rightarrow> 'c list \<Rightarrow> error + 'v series" where
  "predict get_or_load archive_path args =
     (case get_or_load archive_path of
        Inl err \<Rightarrow> Inl err
      | Inr model_predict \<Rightarrow>
          (let schema = predict_schema args;
               columns = predict_columns args;
               pdf = pandas_DataFrame schema columns
           in case model_predict pdf of
                Inl err \<Rightarrow> Inl err
              | Inr result \<Rightarrow> Inr (Series result)))"

section \<open>Writing to the filesystem\<close>

text \<open>
  \<open>put\<close> sets the node at a component path whose parent directory exists: a new entry
  goes to the end of the parent's listing, an existing one is replaced in place.
\<close>

fun put :: "string list \<Rightarrow> node \<Rightarrow> node \<Rightarrow> node" where
  "put [] new old = new"
| "put (c # cs) new (File x) = File x"
| "put (c # cs) new (Dir es) =
     (case map_of es c of
        None \<Rightarrow> (if cs = [] then Dir (es @ [(c, new)]) else Dir es)
      | Some n \<Rightarrow> Dir (AList.update c (put cs new n) es))"

text \<open>\<^verbatim>\<open>os.mkdir(p)\<close>: the path must be new and its parent an existing directory.\<close>

definition os_mkdir :: "string \<Rightarrow> pystate \<Rightarrow> error + pystate" where
  "os_mkdir p s =
     (if p = [] then Inl (FileNotFoundError p)
      else
        let cs = resolve s p in
        if lookup (fs s) cs \<noteq> None then Inl (FileExistsError p)
        else (case lookup (fs s) (butlast cs) of
                None \<Rightarrow> Inl (FileNotFoundError p)
              | Some (File _) \<Rightarrow> Inl (NotADirectoryError p)
              | Some (Dir _) \<Rightarrow> Inr (s\<lparr>fs := put cs (Dir []) (fs s)\<rparr>)))"

text \<open>
  \<^verbatim>\<open>os.makedirs(p)\<close>: creates the missing directories on the way to \<open>p\<close> and \<open>p\<close> itself;
  \<open>p\<close> must be new, and no file may stand on the way.
\<close>

fun makedirs_node :: "string list \<Rightarrow> node \<Rightarrow> node option" where
  "makedirs_node [] n = Some n"
| "makedirs_node (c # cs) (File x) = None"
| "makedirs_node (c # cs) (Dir es) =
     (case map_of es c of
        None \<Rightarrow> (case makedirs_node cs (Dir []) of
                   None \<Rightarrow> None
                 | Some n' \<Rightarrow> Some (Dir (es @ [(c, n')])))
      | Some n \<Rightarrow> (case makedirs_node cs n of
                     None \<Rightarrow> None
                   | Some n' \<Rightarrow> Some (Dir (AList.update c n' es))))"

definition os_makedirs :: "string \<Rightarrow> pystate \<Rightarrow> error + pystate" where
  "os_makedirs p s =
     (if p = [] then Inl (FileNotFoundError p)
      else
        let cs = resolve s p in
        if lookup (fs s) cs \<noteq> None then Inl (FileExistsError p)
        else (case makedirs_node cs (fs s) of
                None \<Rightarrow> Inl (NotADirectoryError p)
              | Some n \<Rightarrow> Inr (s\<lparr>fs := n\<rparr>)))"

text \<open>Opening \<open>p\<close> for writing and writing \<open>contents\<close>: creates or overwrites a file.\<close>

definition write_file :: "string \<Rightarrow> string \<Rightarrow> pystate \<Rightarrow> error + pystate" where
  "write_file p contents s =
     (if p = [] then Inl (FileNotFoundError p)
      else
        let cs = resolve s p in
        (case lookup (fs s) cs of
           Some (Dir _) \<Rightarrow> Inl (IsADirectoryError p)
         | _ \<Rightarrow> (case lookup (fs s) (butlast cs) of
                   None \<Rightarrow> Inl (FileNotFoundError p)
                 | Some (File _) \<Rightarrow> Inl (NotADirectoryError p)
                 | Some (Dir _) \<Rightarrow> Inr (s\<lparr>fs := put cs (File contents) (fs s)\<rparr>))))"

text \<open>
  \<^verbatim>\<open>shutil.copy(src, dst)\<close>: into \<open>dst\<close> under the source's base name when \<open>dst\<close> is a
  directory, to \<open>dst\<close> itself otherwise; the source must be a file other than the target.
\<close>

definition shutil_copy :: "string \<Rightarrow> string \<Rightarrow> pystate \<Rightarrow> error + pystate" where
  "shutil_copy src dst0 s =
     (let dst = (if os_path_isdir s dst0 then os_path_join dst0 (os_path_basename src) else dst0) in
      case stat s src of
        None \<Rightarrow> Inl (FileNotFoundError src)
      | Some (Dir _) \<Rightarrow>
          if stat s dst \<noteq> None \<and> resolve s src = resolve s dst then Inl (SameFileError src)
          else Inl (IsADirectoryError src)
      | Some (File contents) \<Rightarrow>
          if stat s dst \<noteq> None \<and> resolve s src = resolve s dst then Inl (SameFileError src)
          else write_file dst contents s)"

text \<open>
  \<^verbatim>\<open>shutil.copytree(src, dst)\<close>: lists the source directory, creates \<open>dst\<close> (which must be
  new) with \<^verbatim>\<open>os.makedirs\<close>, and copies the entries listed to it. When \<open>dst\<close> lies inside
  the source, below an entry the source already had, the copy of that entry finds \<open>dst\<close>
  in it and descends into its own output without end, until the interpreter stops it:
  the call fails (the directories it made on the way are not modelled). Otherwise the
  result is the copy of the source tree as listed.
\<close>

definition inside_existing :: "string list \<Rightarrow> string list \<Rightarrow> node \<Rightarrow> bool" where
  "inside_existing src_cs dst_cs tree =
     (length src_cs < length dst_cs \<and> take (length src_cs) dst_cs = src_cs
      \<and> lookup tree [dst_cs ! length src_cs] \<noteq> None)"

definition shutil_copytree :: "string \<Rightarrow> string \<Rightarrow> pystate \<Rightarrow> error + pystate" where
  "shutil_copytree src dst s =
     (case os_listdir s src of
        Inl err \<Rightarrow> Inl err
      | Inr names \<Rightarrow>
          (case stat s src of
             None \<Rightarrow> Inl (FileNotFoundError src)
           | Some tree \<Rightarrow>
               (case os_makedirs dst s of
                  Inl err \<Rightarrow> Inl err
                | Inr s1 \<Rightarrow>
                    if inside_existing (resolve s src) (resolve s dst) tree
                    then Inl (RecursionError src)
                    else Inr (s1\<lparr>fs := put (resolve s1 dst) tree (fs s1)\<rparr>))))"

section \<open>Saving\<close>

text \<open>
  Modelled from the spec: \<^verbatim>\<open>Model.add_flavor\<close> of \<^verbatim>\<open>mlflow.models\<close>, which is not part of
  this file. Section 4.1: it gives the manifest with the flavor entry populated.
\<close>

definition add_flavor :: "model \<Rightarrow> string \<Rightarrow> conf \<Rightarrow> model" where
  "add_flavor m name parms = m\<lparr>flavors := (flavors m)(name \<mapsto> parms)\<rparr>"

definition add_to_model ::
    "'h env \<Rightarrow> model \<Rightarrow> string \<Rightarrow> string option \<Rightarrow> string option \<Rightarrow> string option \<Rightarrow> model" where
  "add_to_model e m loader_module data code env_path =
     (let parms0 = [MAIN \<mapsto> loader_module];
          parms1 = parms0(PY_VERSION \<mapsto> PYTHON_VERSION e);
          parms2 = (case code of Some c \<Rightarrow> if c \<noteq> [] then parms1(CODE \<mapsto> c) else parms1
                                | None \<Rightarrow> parms1);
          parms3 = (case data of Some d \<Rightarrow> if d \<noteq> [] then parms2(DATA \<mapsto> d) else parms2
                                | None \<Rightarrow> parms2);
          parms4 = (case env_path of Some v \<Rightarrow> if v \<noteq> [] then parms3(ENV \<mapsto> v) else parms3
                                    | None \<Rightarrow> parms3)
      in add_flavor m FLAVOR_NAME parms4)"

text \<open>
  \<^verbatim>\<open>_copy_file_or_tree(src, dst, dst_dir)\<close>. The state comes back with the result: a
  directory made before a failing copy stays made.
\<close>

definition copy_file_or_tree :: "string \<Rightarrow> string \<Rightarrow> string \<Rightarrow> pystate \<Rightarrow> (error + string) \<times> pystate" where
  "copy_file_or_tree src dst dst_dir s =
     (let name = os_path_join dst_dir (os_path_basename (os_path_abspath (cwd s) src)) in
      case (if dst_dir \<noteq> [] then os_mkdir (os_path_join dst dst_dir) s else Inr s) of
        Inl err \<Rightarrow> (Inl err, s)
      | Inr s1 \<Rightarrow>
          (case (if os_path_isfile s1 src
                 then shutil_copy src (os_path_join dst name) s1
                 else shutil_copytree src (os_path_join dst name) s1) of
             Inl err \<Rightarrow> (Inl err, s1)
           | Inr s2 \<Rightarrow> (Inr name, s2)))"

text \<open>The loop \<^verbatim>\<open>for path in code_path: _copy_file_or_tree(src=path, dst=dst_path, dst_dir="code")\<close>.\<close>

fun copy_code_paths :: "string list \<Rightarrow> string \<Rightarrow> pystate \<Rightarrow> (error + unit) \<times> pystate" where
  "copy_code_paths [] dst_path s = (Inr (), s)"
| "copy_code_paths (path # rest) dst_path s =
     (case copy_file_or_tree path dst_path ''code'' s of
        (Inl err, s1) \<Rightarrow> (Inl err, s1)
      | (Inr _, s1) \<Rightarrow> copy_code_paths rest dst_path s1)"

definition path_exists_error :: "string \<Rightarrow> error" where
  "path_exists_error dst_path =
     Exception (''Path '' @ [CHR 0x27] @ dst_path @ [CHR 0x27] @ '' already exists'')"

definition save_model ::
    "'h env \<Rightarrow> string \<Rightarrow> string \<Rightarrow> string option \<Rightarrow> string list \<Rightarrow> string option \<Rightarrow> model
       \<Rightarrow> pystate \<Rightarrow> (error + model) \<times> pystate" where
  "save_model e dst_path loader_module data_path code_path conda_env m s =
     (if os_path_exists s dst_path then (Inl (path_exists_error dst_path), s)
      else
        case os_makedirs dst_path s of
          Inl err \<Rightarrow> (Inl err, s)
        | Inr s1 \<Rightarrow>
            (case (if truthy data_path
                   then (case copy_file_or_tree (case data_path of Some d \<Rightarrow> d | None \<Rightarrow> [])
                                dst_path ''data'' s1 of
                           (Inl err, s') \<Rightarrow> (Inl err, s')
                         | (Inr model_file, s') \<Rightarrow> (Inr (Some model_file), s'))
                   else (Inr None, s1)) of
               (Inl err, s2) \<Rightarrow> (Inl err, s2)
             | (Inr data, s2) \<Rightarrow>
                 (case (if code_path \<noteq> []
                        then (case copy_code_paths code_path dst_path s2 of
                                (Inl err, s') \<Rightarrow> (Inl err, s')
                              | (Inr _, s') \<Rightarrow> (Inr (Some ''code''), s'))
                        else (Inr None, s2)) of
                    (Inl err, s3) \<Rightarrow> (Inl err, s3)
                  | (Inr code, s3) \<Rightarrow>
                      (case (if truthy conda_env
                             then (case shutil_copy (case conda_env of Some c \<Rightarrow> c | None \<Rightarrow> [])
                                          (os_path_join dst_path ''mlflow_env.yml'') s3 of
                                     Inl err \<Rightarrow> Inl err
                                   | Inr s' \<Rightarrow> Inr (Some ''mlflow_env.yml'', s'))
                             else Inr (None, s3)) of
                         Inl err \<Rightarrow> (Inl err, s3)
                       | Inr (env_path, s4) \<Rightarrow>
                           (let m' = add_to_model e m loader_module data code env_path in
                            case Model_save e m' (os_path_join dst_path ''MLmodel'') s4 of
                              Inl err \<Rightarrow> (Inl err, s4)
                            | Inr s5 \<Rightarrow> (Inr m', s5))))))"

section \<open>The code path resolver as the specification words it\<close>

text \<open>
  The specification's \<^verbatim>\<open>resolveCodeDirs\<close>: the immediate entries of the source directory,
  without compiled-artifact and cache entries, each rewritten under the destination
  directory, which defaults to the source directory. It is compared with
  \<open>get_code_dirs\<close> below.
\<close>

definition compiled_or_cache_entry :: "string \<Rightarrow> bool" where
  "compiled_or_cache_entry x = (endswith x ''.pyc'' \<or> x = ''__pycache__'')"

definition resolveCodeDirs_spec :: "pystate \<Rightarrow> string \<Rightarrow> string option \<Rightarrow> error + string list" where
  "resolveCodeDirs_spec s sourceCodeDir destinationCodeDir =
     (case os_listdir s sourceCodeDir of
        Inl err \<Rightarrow> Inl err
      | Inr entries \<Rightarrow>
          Inr (map (os_path_join (case destinationCodeDir of None \<Rightarrow> sourceCodeDir | Some d \<Rightarrow> d))
                   (filter (\<lambda>x. \<not> compiled_or_cache_entry x) entries)))"

section \<open>A concrete environment\<close>

text \<open>
  A small world on which the theorems below are evaluated: a working directory \<^verbatim>\<open>/work\<close>
  holding a saved model \<^verbatim>\<open>m\<close> (manifest, code directory, data), an empty directory and two
  source files; a running Python 3.7.1; a manifest loader that knows the model \<^verbatim>\<open>m\<close> and a
  manifest \<^verbatim>\<open>other\<close> with a different flavor only; and one importable loader module.
\<close>

definition ex_major_minor :: "string \<Rightarrow> string" where
  "ex_major_minor v = str_join ''.'' (take 2 (str_split (CHR ''.'') v))"

definition ex_conf :: conf where
  "ex_conf = [MAIN \<mapsto> ''mlflow.sklearn'', PY_VERSION \<mapsto> ''3.6.5'', CODE \<mapsto> ''code'',
              DATA \<mapsto> ''data/model.pkl'']"

definition ex_fs :: node where
  "ex_fs = Dir [(''work'', Dir [
       (''m'', Dir [(''MLmodel'', File ''python_function''),
                    (''code'', Dir [(''model_code.py'', File ''import lib''),
                                    (''lib'', Dir [(''__init__.py'', File [])]),
                                    (''__pycache__'', Dir []),
                                    (''model_code.pyc'', File [])]),
                    (''data'', Dir [(''model.pkl'', File ''weights'')])]),
       (''empty'', Dir []),
       (''a.py'', File ''x = 1''),
       (''b.py'', File ''y = 2'')])]"

definition ex_state :: pystate where
  "ex_state = \<lparr>fs = ex_fs, cwd = ''/work'', sys_path = [''/usr/lib/python3''], stderr = []\<rparr>"

definition ex_other_model :: model where
  "ex_other_model = \<lparr>flavors = [''sklearn'' \<mapsto> Map.empty]\<rparr>"

definition ex_env :: "string env" where
  "ex_env = \<lparr>PYTHON_VERSION = ''3.7.1'',
             get_major_minor_py_version = ex_major_minor,
             Model_load = (\<lambda>s p. if p = ''m/MLmodel'' then Inr \<lparr>flavors = [FLAVOR_NAME \<mapsto> ex_conf]\<rparr>
                                   else if p = ''other/MLmodel'' then Inr ex_other_model
                                   else Inl (FileNotFoundError p)),
             Model_save = (\<lambda>m p s. write_file p ''manifest'' s),
             get_model_log_dir = (\<lambda>p r. Inr (os_path_join (os_path_join ''/mlruns'' r) p)),
             import_module = (\<lambda>sp name. if name = ''mlflow.sklearn''
                                          then Inr (\<lambda>p. Inr (''handle:'' @ p))
                                          else Inl (ImportError name))\<rparr>"

text \<open>Two more manifests: one with an empty code entry, one with no version tag.\<close>

definition ex_conf_nocode :: conf where
  "ex_conf_nocode = [MAIN \<mapsto> ''mlflow.sklearn'', PY_VERSION \<mapsto> ''3.7.0'', CODE \<mapsto> []]"

definition ex_env_nocode :: "string env" where
  "ex_env_nocode = ex_env\<lparr>Model_load := (\<lambda>s p. Inr \<lparr>flavors = [FLAVOR_NAME \<mapsto> ex_conf_nocode]\<rparr>)\<rparr>"

definition ex_conf_notag :: conf where
  "ex_conf_notag = [MAIN \<mapsto> ''mlflow.sklearn'']"

definition ex_env_notag :: "string env" where
  "ex_env_notag = ex_env\<lparr>Model_load := (\<lambda>s p. Inr \<lparr>flavors = [FLAVOR_NAME \<mapsto> ex_conf_notag]\<rparr>)\<rparr>"

text \<open>Eleven input columns of two rows each, and a model that answers with the first column.\<close>

definition ex_model_predict :: "nat list dataframe \<Rightarrow> error + nat list" where
  "ex_model_predict pdf = (case pdf of (_, Some column) # _ \<Rightarrow> Inr column | _ \<Rightarrow> Inl (KeyError ''0''))"

definition ex_args :: "nat list list" where
  "ex_args = [[10, 11], [20, 21], [30, 31], [40, 41], [50, 51], [60, 61], [70, 71], [80, 81],
              [90, 91], [100, 101], [110, 111]]"

text \<open>A manifest with no flavor yet, as \<^verbatim>\<open>Model()\<close> gives it.\<close>

definition ex_new_model :: model where
  "ex_new_model = \<lparr>flavors = Map.empty\<rparr>"

section \<open>Properties of loading\<close>

text \<open>Paths through a missing directory or through a file do not exist.\<close>

lemma ex_missing_paths:
  "\<not> os_path_exists ex_state ''nosuch/../m''"
  "\<not> os_path_exists ex_state ''a.py/''"
  "os_path_exists ex_state ''m/../m/code/''"
  "os_listdir ex_state ''a.py/'' = Inl (NotADirectoryError ''a.py/'')"
  by code_simp+

lemma stat_result_stderr [simp]: "stat_result (s\<lparr>stderr := x\<rparr>) p = stat_result s p"
  by (simp add: stat_result_def split: sum.splits)

lemma stat_stderr [simp]: "stat (s\<lparr>stderr := x\<rparr>) p = stat s p"
  by (simp add: stat_def)

lemma os_listdir_stderr [simp]: "os_listdir (s\<lparr>stderr := x\<rparr>) p = os_listdir s p"
  by (simp add: os_listdir_def)

lemma get_code_dirs_stderr [simp]: "get_code_dirs (s\<lparr>stderr := x\<rparr>) p d = get_code_dirs s p d"
  by (simp add: get_code_dirs_def)

lemma get_code_dirs_warn [simp]:
  "get_code_dirs (warn_potentially_incompatible_py_version_if_necessary e v s) p d
     = get_code_dirs s p d"
  by (simp add: warn_potentially_incompatible_py_version_if_necessary_def eprint_def
      split: option.splits)

lemma sys_path_warn [simp]:
  "sys_path (warn_potentially_incompatible_py_version_if_necessary e v s) = sys_path s"
  by (simp add: warn_potentially_incompatible_py_version_if_necessary_def eprint_def
      split: option.splits)

lemma model_log_path_None [simp]: "model_log_path e path None = Inr path"
  by (simp add: model_log_path_def truthy_def)

text \<open>
  C2. When the manifest at the artifact path loads and its flavors have no
  \<^verbatim>\<open>python_function\<close> entry, \<^verbatim>\<open>load_pyfunc\<close> ends with the exception of
  \<^verbatim>\<open>_load_model_conf\<close> (the flavor-not-found failure, which the source raises as a plain
  \<^verbatim>\<open>Exception\<close> with the message below) and with no other one; nothing has been printed
  and the search path is as it was.
\<close>

theorem load_pyfunc_flavor_absent:
  assumes "model_log_path e path0 run_id = Inr path"
      and "Model_load e s (os_path_join path ''MLmodel'') = Inr m"
      and "flavors m FLAVOR_NAME = None"
  shows "load_pyfunc e path0 run_id suppress_warnings s =
           (Inl (Exception (''Format '' @ [CHR 0x27] @ ''python_function'' @ [CHR 0x27]
                            @ '' not found not in '' @ os_path_join path ''MLmodel'' @ ''.'')), s)"
  using assms
  by (simp add: load_pyfunc_def load_model_conf_def flavor_not_found_def FLAVOR_NAME_def)

theorem load_pyfunc_flavor_absent_witness:
  "model_log_path ex_env ''other'' None = Inr ''other''
   \<and> Model_load ex_env ex_state (os_path_join ''other'' ''MLmodel'') = Inr ex_other_model
   \<and> flavors ex_other_model FLAVOR_NAME = None
   \<and> load_pyfunc ex_env ''other'' None False ex_state =
       (Inl (Exception (''Format '' @ [CHR 0x27] @ ''python_function'' @ [CHR 0x27]
                        @ '' not found not in other/MLmodel.'')), ex_state)"
  using load_pyfunc_flavor_absent [of ex_env "''other''" None "''other''" ex_state
          ex_other_model False]
  by (simp add: ex_env_def ex_other_model_def os_path_join_def startswith_def endswith_def
      FLAVOR_NAME_def)

lemma ex_conf_simps:
  "ex_conf CODE = Some ''code''" "ex_conf DATA = Some ''data/model.pkl''"
  "ex_conf MAIN = Some ''mlflow.sklearn''" "ex_conf PY_VERSION = Some ''3.6.5''"
  by (simp_all add: ex_conf_def CODE_def DATA_def MAIN_def PY_VERSION_def)

lemma ex_load_model_conf: "load_model_conf ex_env ''m'' None ex_state = Inr ex_conf"
  by (simp add: load_model_conf_def ex_env_def os_path_join_def startswith_def endswith_def)

lemma ex_listdir_code:
  "os_listdir ex_state ''m/code'' = Inr [''model_code.py'', ''lib'', ''__pycache__'', ''model_code.pyc'']"
  by code_simp

lemma ex_get_code_dirs: "get_code_dirs ex_state ''m/code'' None = Inr [''m/code/lib'']"
  by (simp add: get_code_dirs_def ex_listdir_code keep_entry_def endswith_def os_path_join_def startswith_def)

lemma ex_joins:
  "os_path_join ''m'' ''code'' = ''m/code''"
  "os_path_join ''m'' ''data/model.pkl'' = ''m/data/model.pkl''"
  by (simp_all add: os_path_join_def startswith_def endswith_def)

lemma ex_versions_differ:
  "get_major_minor_py_version ex_env ''3.6.5'' \<noteq> get_major_minor_py_version ex_env (PYTHON_VERSION ex_env)"
  by (simp add: ex_env_def ex_major_minor_def)

lemma ex_import: "import_module ex_env sp ''mlflow.sklearn'' = Inr (\<lambda>p. Inr (''handle:'' @ p))"
  by (simp add: ex_env_def)

lemma ex_load_pyfunc:
  "load_pyfunc ex_env ''m'' None sw ex_state =
     (Inr ''handle:m/data/model.pkl'',
      ex_state\<lparr>sys_path := [''m/code'', ''m/code/lib''] @ sys_path ex_state,
                stderr := (if sw then stderr ex_state
                           else stderr ex_state @ [version_mismatch_warning ex_env ''3.6.5''])\<rparr>)"
  by (simp add: load_pyfunc_def ex_load_model_conf ex_conf_simps ex_joins ex_get_code_dirs Let_def
      ex_import warn_potentially_incompatible_py_version_if_necessary_def ex_versions_differ eprint_def)

text \<open>
  C3. When the flavor configuration records a non-empty code path \<open>c\<close> and the code
  directory can be listed, \<^verbatim>\<open>load_pyfunc\<close> leaves the module search path equal to the code
  directory \<^verbatim>\<open>os.path.join(path, c)\<close>, then the directories \<^verbatim>\<open>_get_code_dirs\<close> resolves for
  it, then the previous search path, unchanged and in its order; the packaged code is
  searched first. This holds whether or not the later import succeeds.
\<close>

theorem load_pyfunc_prepends_code_dirs:
  assumes "model_log_path e path0 run_id = Inr path"
      and "load_model_conf e path None s = Inr conf"
      and "conf CODE = Some c" and "c \<noteq> []"
      and "get_code_dirs s (os_path_join path c) None = Inr dirs"
  shows "sys_path (snd (load_pyfunc e path0 run_id suppress_warnings s)) =
           [os_path_join path c] @ dirs @ sys_path s"
  using assms
  by (simp add: load_pyfunc_def Let_def split: option.splits sum.splits)

theorem load_pyfunc_prepends_code_dirs_witness:
  "model_log_path ex_env ''m'' None = Inr ''m''
   \<and> load_model_conf ex_env ''m'' None ex_state = Inr ex_conf
   \<and> ex_conf CODE = Some ''code''
   \<and> get_code_dirs ex_state (os_path_join ''m'' ''code'') None = Inr [''m/code/lib'']
   \<and> sys_path (snd (load_pyfunc ex_env ''m'' None False ex_state)) =
        [''m/code'', ''m/code/lib'', ''/usr/lib/python3'']"
proof -
  have j: "os_path_join ''m'' ''code'' = ''m/code''"
    by (simp add: os_path_join_def startswith_def endswith_def)
  have g: "get_code_dirs ex_state (os_path_join ''m'' ''code'') None = Inr [''m/code/lib'']"
    by (simp add: j ex_get_code_dirs)
  have "sys_path (snd (load_pyfunc ex_env ''m'' None False ex_state)) =
          [os_path_join ''m'' ''code''] @ [''m/code/lib''] @ sys_path ex_state"
    by (rule load_pyfunc_prepends_code_dirs [OF model_log_path_None ex_load_model_conf
          ex_conf_simps(1) _ g]) simp
  moreover have "sys_path ex_state = [''/usr/lib/python3'']"
    by (simp add: ex_state_def)
  ultimately show ?thesis
    by (simp add: j ex_get_code_dirs ex_load_model_conf ex_conf_simps)
qed

text \<open>
  C10. When the flavor configuration has no code entry, or an empty one, \<^verbatim>\<open>load_pyfunc\<close>
  leaves the module search path as it was; and whenever \<^verbatim>\<open>load_pyfunc\<close> does change the
  search path, the manifest loaded and its configuration records a non-empty code path.
\<close>

theorem load_pyfunc_search_path_frame:
  "(model_log_path e path0 run_id = Inr path \<and> load_model_conf e path None s = Inr conf
      \<and> (conf CODE = None \<or> conf CODE = Some [])
     \<longrightarrow> sys_path (snd (load_pyfunc e path0 run_id suppress_warnings s)) = sys_path s)
   \<and> (sys_path (snd (load_pyfunc e path0 run_id suppress_warnings s)) \<noteq> sys_path s
     \<longrightarrow> (\<exists>path conf c. model_log_path e path0 run_id = Inr path
            \<and> load_model_conf e path None s = Inr conf \<and> conf CODE = Some c \<and> c \<noteq> []))"
  by (auto simp add: load_pyfunc_def Let_def split: option.splits sum.splits if_splits)

theorem load_pyfunc_search_path_frame_witness:
  "model_log_path ex_env_nocode ''m'' None = Inr ''m''
   \<and> load_model_conf ex_env_nocode ''m'' None ex_state = Inr ex_conf_nocode
   \<and> ex_conf_nocode CODE = Some []
   \<and> sys_path (snd (load_pyfunc ex_env_nocode ''m'' None False ex_state)) = sys_path ex_state
   \<and> sys_path (snd (load_pyfunc ex_env ''m'' None False ex_state)) \<noteq> sys_path ex_state
   \<and> (\<exists>path conf c. model_log_path ex_env ''m'' None = Inr path
            \<and> load_model_conf ex_env path None ex_state = Inr conf \<and> conf CODE = Some c \<and> c \<noteq> [])"
proof -
  have c: "load_model_conf ex_env_nocode ''m'' None ex_state = Inr ex_conf_nocode"
    by (simp add: load_model_conf_def ex_env_nocode_def)
  have k: "ex_conf_nocode CODE = Some []"
    by (simp add: ex_conf_nocode_def CODE_def)
  have a: "sys_path (snd (load_pyfunc ex_env_nocode ''m'' None False ex_state)) = sys_path ex_state"
    using load_pyfunc_search_path_frame [of ex_env_nocode "''m''" None "''m''" ex_state
        ex_conf_nocode False] c k by simp
  have j: "os_path_join ''m'' ''code'' = ''m/code''"
    by (simp add: os_path_join_def startswith_def endswith_def)
  have "sys_path (snd (load_pyfunc ex_env ''m'' None False ex_state))
          = [''m/code'', ''m/code/lib''] @ sys_path ex_state"
    by (simp add: ex_load_pyfunc)
  then have b: "sys_path (snd (load_pyfunc ex_env ''m'' None False ex_state)) \<noteq> sys_path ex_state"
    by simp
  from b load_pyfunc_search_path_frame [of ex_env "''m''" None _ ex_state _ False]
  have "\<exists>path conf c. model_log_path ex_env ''m'' None = Inr path
            \<and> load_model_conf ex_env path None ex_state = Inr conf \<and> conf CODE = Some c \<and> c \<noteq> []"
    by blast
  with a b c k show ?thesis by simp
qed

lemma load_pyfunc_steps:
  assumes "model_log_path e path0 run_id = Inr path"
      and "load_model_conf e path None s = Inr conf"
      and "\<And>c. conf CODE = Some c \<Longrightarrow> c \<noteq> [] \<Longrightarrow> \<exists>names. os_listdir s (os_path_join path c) = Inr names"
      and "conf MAIN = Some main"
  shows "\<exists>s2. sys_path (snd (load_pyfunc e path0 run_id sw s)) = sys_path s2
            \<and> load_pyfunc e path0 run_id sw s =
                (case import_module e (sys_path s2) main of
                   Inl err \<Rightarrow> (Inl err, s2)
                 | Inr loader \<Rightarrow>
                     (loader (case conf DATA of Some d \<Rightarrow> os_path_join path d | None \<Rightarrow> path), s2))"
proof -
  define s1 where "s1 = (if sw then s
                         else warn_potentially_incompatible_py_version_if_necessary e (conf PY_VERSION) s)"
  have no_code: "conf CODE = None \<or> conf CODE = Some [] \<Longrightarrow> ?thesis"
    using assms(1,2,4)
    by (intro exI [of _ s1]) (auto simp add: load_pyfunc_def Let_def s1_def split: sum.splits)
  show ?thesis
  proof (cases "conf CODE")
    case None
    then show ?thesis using no_code by simp
  next
    case (Some c)
    show ?thesis
    proof (cases "c = []")
      case True
      with Some show ?thesis using no_code by simp
    next
      case False
      with Some assms(3) obtain names where "os_listdir s (os_path_join path c) = Inr names"
        by blast
      then have g: "get_code_dirs s (os_path_join path c) None =
                   Inr [os_path_join (os_path_join path c) x. x \<leftarrow> names, keep_entry x]"
        by (simp add: get_code_dirs_def)
      show ?thesis
        using Some False assms(1,2,4) g
        by (intro exI [of _ "s1\<lparr>sys_path := [os_path_join path c]
                @ [os_path_join (os_path_join path c) x. x \<leftarrow> names, keep_entry x] @ sys_path s1\<rparr>"])
           (auto simp add: load_pyfunc_def Let_def s1_def split: sum.splits)
    qed
  qed
qed

lemma load_pyfunc_result:
  assumes "model_log_path e path0 run_id = Inr path"
      and "load_model_conf e path None s = Inr conf"
      and "\<And>c. conf CODE = Some c \<Longrightarrow> c \<noteq> [] \<Longrightarrow> \<exists>names. os_listdir s (os_path_join path c) = Inr names"
      and "conf MAIN = Some main"
      and "import_module e (sys_path (snd (load_pyfunc e path0 run_id sw s))) main = Inr loader"
  shows "fst (load_pyfunc e path0 run_id sw s) =
           loader (case conf DATA of Some d \<Rightarrow> os_path_join path d | None \<Rightarrow> path)"
proof -
  from load_pyfunc_steps [OF assms(1-4), of sw] obtain s2 where
    sp: "sys_path (snd (load_pyfunc e path0 run_id sw s)) = sys_path s2" and
    eq: "load_pyfunc e path0 run_id sw s =
                (case import_module e (sys_path s2) main of
                   Inl err \<Rightarrow> (Inl err, s2)
                 | Inr loader \<Rightarrow>
                     (loader (case conf DATA of Some d \<Rightarrow> os_path_join path d | None \<Rightarrow> path), s2))"
    by blast
  from assms(5) sp have "import_module e (sys_path s2) main = Inr loader"
    by simp
  with eq show ?thesis by simp
qed

text \<open>
  C4. The path handed to the loader module's \<^verbatim>\<open>load_pyfunc\<close> is the artifact path joined
  with the recorded data entry when the configuration has one, and the artifact path
  itself when it has none: whatever function \<open>loader\<close> the import resolves to, the result
  of \<^verbatim>\<open>load_pyfunc\<close> is \<open>loader\<close> applied to that path.
\<close>

theorem load_pyfunc_data_path:
  assumes "model_log_path e path0 run_id = Inr path"
      and "load_model_conf e path None s = Inr conf"
      and "\<And>c. conf CODE = Some c \<Longrightarrow> c \<noteq> [] \<Longrightarrow> \<exists>names. os_listdir s (os_path_join path c) = Inr names"
      and "conf MAIN = Some main"
      and "import_module e (sys_path (snd (load_pyfunc e path0 run_id sw s))) main = Inr loader"
  shows "(\<forall>d. conf DATA = Some d \<longrightarrow> fst (load_pyfunc e path0 run_id sw s) = loader (os_path_join path d))
       \<and> (conf DATA = None \<longrightarrow> fst (load_pyfunc e path0 run_id sw s) = loader path)"
  using load_pyfunc_result [OF assms] by simp

theorem load_pyfunc_data_path_witness:
  "ex_conf DATA = Some ''data/model.pkl''
   \<and> fst (load_pyfunc ex_env ''m'' None False ex_state) = Inr (''handle:'' @ os_path_join ''m'' ''data/model.pkl'')
   \<and> ex_conf_nocode DATA = None
   \<and> fst (load_pyfunc ex_env_nocode ''m'' None False ex_state) = Inr ''handle:m''"
proof -
  have l: "\<And>c. ex_conf CODE = Some c \<Longrightarrow> c \<noteq> [] \<Longrightarrow> \<exists>names. os_listdir ex_state (os_path_join ''m'' c) = Inr names"
    by (simp add: ex_conf_simps ex_joins ex_listdir_code)
  have a: "fst (load_pyfunc ex_env ''m'' None False ex_state) = Inr (''handle:'' @ os_path_join ''m'' ''data/model.pkl'')"
    using load_pyfunc_data_path [OF model_log_path_None ex_load_model_conf l ex_conf_simps(3) ex_import,
        of False]
    by (simp add: ex_conf_simps)
  have c: "load_model_conf ex_env_nocode ''m'' None ex_state = Inr ex_conf_nocode"
    by (simp add: load_model_conf_def ex_env_nocode_def)
  have k: "ex_conf_nocode CODE = Some []" "ex_conf_nocode MAIN = Some ''mlflow.sklearn''"
     "ex_conf_nocode DATA = None"
    by (simp_all add: ex_conf_nocode_def CODE_def MAIN_def DATA_def PY_VERSION_def)
  have l': "\<And>c. ex_conf_nocode CODE = Some c \<Longrightarrow> c \<noteq> [] \<Longrightarrow> \<exists>names. os_listdir ex_state (os_path_join ''m'' c) = Inr names"
    by (simp add: k)
  have i: "\<And>sp. import_module ex_env_nocode sp ''mlflow.sklearn'' = Inr (\<lambda>p. Inr (''handle:'' @ p))"
    by (simp add: ex_env_nocode_def ex_env_def)
  have b: "fst (load_pyfunc ex_env_nocode ''m'' None False ex_state) = Inr ''handle:m''"
    using load_pyfunc_data_path [OF model_log_path_None c l' k(2) i, of False]
    by (simp add: k)
  from a b k show ?thesis by (simp add: ex_conf_simps)
qed

lemma stderr_load_pyfunc_steps:
  assumes "model_log_path e path0 run_id = Inr path"
      and "load_model_conf e path None s = Inr conf"
  shows "stderr (snd (load_pyfunc e path0 run_id sw s)) =
           stderr (if sw then s else warn_potentially_incompatible_py_version_if_necessary e (conf PY_VERSION) s)"
  using assms
  by (simp add: load_pyfunc_def Let_def split: option.splits sum.splits)

lemma load_pyfunc_suppress_irrelevant:
  "fst (load_pyfunc e path0 run_id False s) = fst (load_pyfunc e path0 run_id True s)
   \<and> sys_path (snd (load_pyfunc e path0 run_id False s)) = sys_path (snd (load_pyfunc e path0 run_id True s))"
  by (simp add: load_pyfunc_def Let_def split: option.splits sum.splits)

text \<open>
  C7. With warnings suppressed \<^verbatim>\<open>load_pyfunc\<close> prints nothing. With warnings on it prints
  exactly one message when the recorded version tag is absent (the unknown-version
  warning) and exactly one when the tag's \<^verbatim>\<open>major.minor\<close> differs from the running
  Python's (the mismatch warning). The warning changes neither the result nor the search
  path: both are what they are with warnings suppressed, and when the import resolves to
  \<open>loader\<close> the result is what \<open>loader\<close> returns for the data path.
\<close>

theorem load_pyfunc_version_warning:
  assumes "model_log_path e path0 run_id = Inr path"
      and "load_model_conf e path None s = Inr conf"
  shows "stderr (snd (load_pyfunc e path0 run_id True s)) = stderr s
       \<and> (conf PY_VERSION = None \<longrightarrow>
            stderr (snd (load_pyfunc e path0 run_id False s)) = stderr s @ [unknown_version_warning e])
       \<and> (\<forall>v. conf PY_VERSION = Some v
               \<and> get_major_minor_py_version e v \<noteq> get_major_minor_py_version e (PYTHON_VERSION e) \<longrightarrow>
            stderr (snd (load_pyfunc e path0 run_id False s)) = stderr s @ [version_mismatch_warning e v])
       \<and> fst (load_pyfunc e path0 run_id False s) = fst (load_pyfunc e path0 run_id True s)
       \<and> sys_path (snd (load_pyfunc e path0 run_id False s))
           = sys_path (snd (load_pyfunc e path0 run_id True s))
       \<and> (\<forall>main loader.
            (\<forall>c. conf CODE = Some c \<and> c \<noteq> [] \<longrightarrow> (\<exists>names. os_listdir s (os_path_join path c) = Inr names))
            \<and> conf MAIN = Some main
            \<and> import_module e (sys_path (snd (load_pyfunc e path0 run_id False s))) main = Inr loader \<longrightarrow>
            fst (load_pyfunc e path0 run_id False s)
              = loader (case conf DATA of Some d \<Rightarrow> os_path_join path d | None \<Rightarrow> path))"
proof -
  have "stderr (snd (load_pyfunc e path0 run_id True s)) = stderr s"
    using stderr_load_pyfunc_steps [OF assms, of True] by simp
  moreover have "conf PY_VERSION = None \<longrightarrow>
      stderr (snd (load_pyfunc e path0 run_id False s)) = stderr s @ [unknown_version_warning e]"
    using stderr_load_pyfunc_steps [OF assms, of False]
    by (simp add: warn_potentially_incompatible_py_version_if_necessary_def eprint_def)
  moreover have "\<forall>v. conf PY_VERSION = Some v
               \<and> get_major_minor_py_version e v \<noteq> get_major_minor_py_version e (PYTHON_VERSION e) \<longrightarrow>
            stderr (snd (load_pyfunc e path0 run_id False s)) = stderr s @ [version_mismatch_warning e v]"
    using stderr_load_pyfunc_steps [OF assms, of False]
    by (simp add: warn_potentially_incompatible_py_version_if_necessary_def eprint_def)
  moreover have "\<forall>main loader.
            (\<forall>c. conf CODE = Some c \<and> c \<noteq> [] \<longrightarrow> (\<exists>names. os_listdir s (os_path_join path c) = Inr names))
            \<and> conf MAIN = Some main
            \<and> import_module e (sys_path (snd (load_pyfunc e path0 run_id False s))) main = Inr loader \<longrightarrow>
            fst (load_pyfunc e path0 run_id False s)
              = loader (case conf DATA of Some d \<Rightarrow> os_path_join path d | None \<Rightarrow> path)"
    using load_pyfunc_result [OF assms, of _ False] by blast
  ultimately show ?thesis
    using load_pyfunc_suppress_irrelevant [of e path0 run_id s] by blast
qed

theorem load_pyfunc_version_warning_witness:
  "stderr (snd (load_pyfunc ex_env ''m'' None True ex_state)) = []
   \<and> stderr (snd (load_pyfunc ex_env ''m'' None False ex_state)) =
       [''The version of Python that the model was saved in, Python 3.6.5, differs from the version of Python that is currently running, Python 3.7.1, and may be incompatible'']
   \<and> fst (load_pyfunc ex_env ''m'' None False ex_state) = Inr ''handle:m/data/model.pkl''
   \<and> fst (load_pyfunc ex_env ''m'' None True ex_state) = Inr ''handle:m/data/model.pkl''
   \<and> stderr (snd (load_pyfunc ex_env_notag ''m'' None True ex_state)) = []
   \<and> stderr (snd (load_pyfunc ex_env_notag ''m'' None False ex_state)) =
       [''The specified model does not have a specified Python version. It may be incompatible with the version of Python that is currently running: Python 3.7.1'']
   \<and> fst (load_pyfunc ex_env_notag ''m'' None False ex_state) = Inr ''handle:m''"
proof -
  note w = load_pyfunc_version_warning [OF model_log_path_None ex_load_model_conf]
  have e0: "stderr ex_state = []" by (simp add: ex_state_def)
  have l: "\<forall>c. ex_conf CODE = Some c \<and> c \<noteq> [] \<longrightarrow> (\<exists>names. os_listdir ex_state (os_path_join ''m'' c) = Inr names)"
    by (simp add: ex_conf_simps ex_joins ex_listdir_code)
  have m: "version_mismatch_warning ex_env ''3.6.5'' =
      ''The version of Python that the model was saved in, Python 3.6.5, differs from the version of Python that is currently running, Python 3.7.1, and may be incompatible''"
    by (simp add: version_mismatch_warning_def ex_env_def)
  have a1: "stderr (snd (load_pyfunc ex_env ''m'' None True ex_state)) = []"
    using w e0 by simp
  have a2: "stderr (snd (load_pyfunc ex_env ''m'' None False ex_state)) = [version_mismatch_warning ex_env ''3.6.5'']"
    using w ex_conf_simps(4) ex_versions_differ e0 by simp
  from w have r: "\<And>main loader.
          (\<forall>c. ex_conf CODE = Some c \<and> c \<noteq> [] \<longrightarrow> (\<exists>names. os_listdir ex_state (os_path_join ''m'' c) = Inr names))
          \<Longrightarrow> ex_conf MAIN = Some main
          \<Longrightarrow> import_module ex_env (sys_path (snd (load_pyfunc ex_env ''m'' None False ex_state))) main = Inr loader
          \<Longrightarrow> fst (load_pyfunc ex_env ''m'' None False ex_state)
              = loader (case ex_conf DATA of Some d \<Rightarrow> os_path_join ''m'' d | None \<Rightarrow> ''m'')"
    by blast
  have a3: "fst (load_pyfunc ex_env ''m'' None False ex_state) = Inr ''handle:m/data/model.pkl''"
    using r [OF l ex_conf_simps(3) ex_import] by (simp add: ex_conf_simps ex_joins)
  from w have "fst (load_pyfunc ex_env ''m'' None False ex_state) = fst (load_pyfunc ex_env ''m'' None True ex_state)"
    by blast
  with a3 have a4: "fst (load_pyfunc ex_env ''m'' None True ex_state) = Inr ''handle:m/data/model.pkl''"
    by simp
  have c: "load_model_conf ex_env_notag ''m'' None ex_state = Inr ex_conf_notag"
    by (simp add: load_model_conf_def ex_env_notag_def)
  note w' = load_pyfunc_version_warning [OF model_log_path_None c]
  have k: "ex_conf_notag CODE = None" "ex_conf_notag MAIN = Some ''mlflow.sklearn''"
     "ex_conf_notag DATA = None" "ex_conf_notag PY_VERSION = None"
    by (simp_all add: ex_conf_notag_def CODE_def MAIN_def DATA_def PY_VERSION_def)
  have u: "unknown_version_warning ex_env_notag =
      ''The specified model does not have a specified Python version. It may be incompatible with the version of Python that is currently running: Python 3.7.1''"
    by (simp add: unknown_version_warning_def ex_env_notag_def ex_env_def)
  have i: "\<And>sp. import_module ex_env_notag sp ''mlflow.sklearn'' = Inr (\<lambda>p. Inr (''handle:'' @ p))"
    by (simp add: ex_env_notag_def ex_env_def)
  have b1: "stderr (snd (load_pyfunc ex_env_notag ''m'' None True ex_state)) = []"
    using w' e0 by simp
  have b2: "stderr (snd (load_pyfunc ex_env_notag ''m'' None False ex_state)) = [unknown_version_warning ex_env_notag]"
    using w' k(4) e0 by simp
  from w' have r': "\<And>main loader.
          (\<forall>c. ex_conf_notag CODE = Some c \<and> c \<noteq> [] \<longrightarrow> (\<exists>names. os_listdir ex_state (os_path_join ''m'' c) = Inr names))
          \<Longrightarrow> ex_conf_notag MAIN = Some main
          \<Longrightarrow> import_module ex_env_notag (sys_path (snd (load_pyfunc ex_env_notag ''m'' None False ex_state))) main = Inr loader
          \<Longrightarrow> fst (load_pyfunc ex_env_notag ''m'' None False ex_state)
              = loader (case ex_conf_notag DATA of Some d \<Rightarrow> os_path_join ''m'' d | None \<Rightarrow> ''m'')"
    by blast
  have l': "\<forall>c. ex_conf_notag CODE = Some c \<and> c \<noteq> [] \<longrightarrow> (\<exists>names. os_listdir ex_state (os_path_join ''m'' c) = Inr names)"
    by (simp add: k)
  have b3: "fst (load_pyfunc ex_env_notag ''m'' None False ex_state) = Inr ''handle:m''"
    using r' [OF l' k(2) i] by (simp add: k)
  from a1 a2 a3 a4 b1 b2 b3 m u show ?thesis by simp
qed

text \<open>
  C6 as stated fails: the claim has only compiled and cache entries left out
  (\<open>resolveCodeDirs_spec\<close>), but the code leaves out the source file \<^verbatim>\<open>model_code.py\<close> too.
\<close>

theorem get_code_dirs_not_spec_counterexample:
  "os_listdir ex_state ''m/code'' = Inr [''model_code.py'', ''lib'', ''__pycache__'', ''model_code.pyc'']
   \<and> get_code_dirs ex_state ''m/code'' None = Inr [''m/code/lib'']
   \<and> resolveCodeDirs_spec ex_state ''m/code'' None = Inr [''m/code/model_code.py'', ''m/code/lib'']
   \<and> get_code_dirs ex_state ''m/code'' None \<noteq> resolveCodeDirs_spec ex_state ''m/code'' None"
  by (simp add: ex_get_code_dirs resolveCodeDirs_spec_def ex_listdir_code compiled_or_cache_entry_def
      endswith_def os_path_join_def startswith_def)

lemma comprehension_map_filter:
  "concat (map (\<lambda>x. if P x then [f x] else []) xs) = map f (filter P xs)"
  by (induction xs) simp_all

text \<open>
  C6, as amended. \<^verbatim>\<open>_get_code_dirs\<close> returns, in listing order, the entries of the source
  directory whose names neither end in \<^verbatim>\<open>.py\<close> or \<^verbatim>\<open>.pyc\<close> nor equal \<^verbatim>\<open>__pycache__\<close>,
  each joined to the destination directory (the source directory when no destination, or
  an empty one, is given). Python source files are left out as well as compiled files and
  the cache directory.
\<close>

theorem get_code_dirs_entries:
  assumes "os_listdir s src_code_path = Inr names"
  shows "get_code_dirs s src_code_path dst_code_path =
           Inr (map (os_path_join (case dst_code_path of
                                     None \<Rightarrow> src_code_path
                                   | Some d \<Rightarrow> if d = [] then src_code_path else d))
                    (filter (\<lambda>x. \<not> endswith x ''.py'' \<and> \<not> endswith x ''.pyc''
                                 \<and> x \<noteq> ''__pycache__'') names))"
  using assms
  by (simp add: get_code_dirs_def keep_entry_def comprehension_map_filter
      split: option.splits)

theorem get_code_dirs_entries_witness:
  "os_listdir ex_state ''m/code'' = Inr [''model_code.py'', ''lib'', ''__pycache__'', ''model_code.pyc'']
   \<and> get_code_dirs ex_state ''m/code'' (Some ''/opt/ml/code'') = Inr [''/opt/ml/code/lib'']"
  using get_code_dirs_entries [OF ex_listdir_code, of "Some ''/opt/ml/code''"]
  by (simp add: ex_listdir_code endswith_def os_path_join_def startswith_def)

lemma os_path_join_nonempty: "c \<noteq> [] \<Longrightarrow> os_path_join a c \<noteq> []"
  by (simp add: os_path_join_def)

section \<open>Properties of the deployment script\<close>

lemma after_prefix_append: "after_prefix p (p @ t) = Some t"
  by (induction p) simp_all

lemma read_literal_plain:
  "list_all literal_char d \<Longrightarrow> read_literal (d @ CHR 0x27 # rest) = Some (d, rest)"
  by (induction d) (simp_all add: literal_char_def)

lemma read_literal_chars:
  "read_literal t = Some (d, rest) \<Longrightarrow> list_all literal_char d"
  by (induction t arbitrary: d rest) (auto split: if_splits option.splits)

lemma parse_abspath_items_chars:
  "parse_abspath_items n t = Some (ds, rest) \<Longrightarrow> list_all (list_all literal_char) ds"
proof (induction n arbitrary: t ds rest)
  case 0
  then show ?case by simp
next
  case (Suc n)
  from Suc.prems obtain t1 d t2 t3 where r: "read_literal t1 = Some (d, t2)"
      and t3: "after_prefix '')'' t2 = Some t3"
      and c: "(case after_prefix '','' t3 of
                 Some t4 \<Rightarrow> (case parse_abspath_items n t4 of
                               None \<Rightarrow> None
                             | Some (ds, rest) \<Rightarrow> Some (d # ds, rest))
               | None \<Rightarrow> (case after_prefix '']'' t3 of
                            None \<Rightarrow> None
                          | Some t5 \<Rightarrow> Some ([d], t5))) = Some (ds, rest)"
    by (simp split: option.splits prod.splits)
  have d: "list_all literal_char d" using r by (rule read_literal_chars)
  show ?case
  proof (cases "after_prefix '','' t3")
    case None
    with c have "ds = [d]" by (simp split: option.splits)
    with d show ?thesis by simp
  next
    case (Some t4)
    with c obtain ds' where p: "parse_abspath_items n t4 = Some (ds', rest)" and e: "ds = d # ds'"
      by (auto split: option.splits)
    from Suc.IH [OF p] d e show ?thesis by simp
  qed
qed

lemma parse_update_path_chars:
  "parse_update_path stmt = Some dirs \<Longrightarrow> list_all (list_all literal_char) dirs"
  by (auto simp add: parse_update_path_def split: option.splits if_splits
      dest: parse_abspath_items_chars)

lemma quote_not_read_back:
  assumes "d \<in> set dirs" and "CHR 0x27 \<in> set d"
  shows "parse_update_path stmt \<noteq> Some dirs"
proof
  assume "parse_update_path stmt = Some dirs"
  from parse_update_path_chars [OF this] assms(1) have "list_all literal_char d"
    by (simp add: list_all_iff)
  with assms(2) show False
    by (auto simp add: list_all_iff literal_char_def)
qed

lemma parse_abspath_items_step:
  assumes "list_all literal_char d"
  shows "parse_abspath_items (Suc n) (abspath_expr d @ t) =
           (case after_prefix '','' t of
              Some t4 \<Rightarrow> (case parse_abspath_items n t4 of
                            None \<Rightarrow> None
                          | Some (ds, rest) \<Rightarrow> Some (d # ds, rest))
            | None \<Rightarrow> (case after_prefix '']'' t of
                         None \<Rightarrow> None
                       | Some t5 \<Rightarrow> Some ([d], t5)))"
proof -
  have e: "abspath_expr d @ t = (''os.path.abspath('' @ [CHR 0x27]) @ (d @ CHR 0x27 # CHR '')'' # t)"
    by (simp add: abspath_expr_def)
  have a: "after_prefix (''os.path.abspath('' @ [CHR 0x27]) (abspath_expr d @ t)
             = Some (d @ CHR 0x27 # CHR '')'' # t)"
    unfolding e by (rule after_prefix_append)
  show ?thesis
    by (subst parse_abspath_items.simps)
       (simp only: a read_literal_plain [OF assms] option.case prod.case, simp)
qed

lemma parse_abspath_items_render:
  assumes "dirs \<noteq> []" and "list_all (list_all literal_char) dirs" and "length dirs \<le> n"
  shows "parse_abspath_items n (str_join '','' (map abspath_expr dirs) @ CHR '']'' # rest)
           = Some (dirs, rest)"
  using assms
proof (induction dirs arbitrary: n)
  case Nil
  then show ?case by simp
next
  case (Cons d ds)
  then obtain k where n: "n = Suc k" by (cases n) auto
  from Cons.prems have pl: "list_all literal_char d" by simp
  show ?case
  proof (cases ds)
    case Nil
    then show ?thesis
      unfolding n by (simp add: parse_abspath_items_step [OF pl] del: parse_abspath_items.simps)
  next
    case (Cons d' ds')
    from Cons.prems Cons n have ih:
      "parse_abspath_items k (str_join '','' (map abspath_expr ds) @ CHR '']'' # rest) = Some (ds, rest)"
      by (intro Cons.IH) simp_all
    have "str_join '','' (map abspath_expr (d # ds)) @ CHR '']'' # rest
            = abspath_expr d @ (CHR '','' # (str_join '','' (map abspath_expr ds) @ CHR '']'' # rest))"
      using Cons by simp
    then show ?thesis
      unfolding n by (simp add: parse_abspath_items_step [OF pl] ih del: parse_abspath_items.simps)
  qed
qed

lemma length_str_join_items: "length dirs \<le> length (str_join '','' (map abspath_expr dirs))"
proof (induction dirs rule: induct_list012)
  case 1
  then show ?case by simp
next
  case (2 x)
  then show ?case by (simp add: abspath_expr_def)
next
  case (3 x y zs)
  then show ?case by (simp add: abspath_expr_def)
qed

lemma update_path_stmt_reads_back:
  assumes "dirs \<noteq> []" and "list_all (list_all literal_char) dirs"
  shows "parse_update_path (update_path_stmt dirs) = Some dirs"
proof -
  let ?t = "str_join '','' (map abspath_expr dirs) @ CHR '']'' # '' + sys.path; ''"
  have e: "update_path_stmt dirs = ''sys.path = ['' @ ?t"
    by (simp add: update_path_stmt_def)
  have a: "after_prefix ''sys.path = ['' (update_path_stmt dirs) = Some ?t"
    unfolding e by (rule after_prefix_append)
  have "length dirs \<le> length ?t"
    using length_str_join_items [of dirs] by simp
  from parse_abspath_items_render [OF assms this]
  have "parse_abspath_items (length ?t) ?t = Some (dirs, '' + sys.path; '')" .
  with a show ?thesis
    by (simp add: parse_update_path_def)
qed

text \<open>
  The bound on the number of items never decides the result: every count from the length
  of the text on reads the same.
\<close>

lemma after_prefix_length: "after_prefix p t = Some r \<Longrightarrow> length t = length p + length r"
  by (induction p t rule: after_prefix.induct) (auto split: if_splits)

lemma read_literal_length: "read_literal t = Some (d, r) \<Longrightarrow> length r < length t"
  by (induction t arbitrary: d r) (auto split: if_splits option.splits)

lemma parse_abspath_items_fuel:
  "length t \<le> n \<Longrightarrow> length t \<le> m \<Longrightarrow> parse_abspath_items n t = parse_abspath_items m t"
proof (induction n arbitrary: m t)
  case 0
  then show ?case by (cases m) simp_all
next
  case (Suc n)
  show ?case
  proof (cases m)
    case 0
    with Suc.prems show ?thesis by simp
  next
    case (Suc k)
    have "parse_abspath_items n t4 = parse_abspath_items k t4"
      if "after_prefix (''os.path.abspath('' @ [CHR 0x27]) t = Some t1"
        and "read_literal t1 = Some (d, t2)" and "after_prefix '')'' t2 = Some t3"
        and "after_prefix '','' t3 = Some t4" for t1 d t2 t3 t4
    proof -
      from that have "length t4 < length t"
        using after_prefix_length [of _ t t1] read_literal_length [of t1 d t2]
          after_prefix_length [of _ t2 t3] after_prefix_length [of _ t3 t4]
        by fastforce
      with Suc.prems Suc show ?thesis
        by (intro Suc.IH) simp_all
    qed
    then show ?thesis
      unfolding Suc by (simp split: option.splits)
  qed
qed

lemma literal_char_join:
  "list_all literal_char a \<Longrightarrow> list_all literal_char b \<Longrightarrow> list_all literal_char (os_path_join a b)"
  by (simp add: os_path_join_def literal_char_def)

lemma loader_and_script_entries:
  assumes "Model_load e s (os_path_join src_path ''MLmodel'') = Inr m"
      and "flavors m FLAVOR_NAME = Some conf"
      and "conf CODE = Some c" and "c \<noteq> []"
      and "os_listdir s (os_path_join src_path c) = Inr names"
  shows "sys_path (snd (load_pyfunc e src_path None sw s))
           = search_path_entries (os_path_join src_path c) (filter keep_entry names) @ sys_path s"
    and "loader_src_code_dirs s src_path dst_path c
           = Inr (search_path_entries (os_path_join dst_path c) (filter keep_entry names))"
    and "conf MAIN = Some main \<Longrightarrow>
         get_module_loader_src e src_path dst_path s
           = Inr (loader_template_format
                    (update_path_stmt
                       (search_path_entries (os_path_join dst_path c) (filter keep_entry names)))
                    main
                    (case conf DATA of Some d \<Rightarrow> os_path_join dst_path d | None \<Rightarrow> dst_path))"
proof -
  have ne: "os_path_join dst_path c \<noteq> []" using assms(4) by (rule os_path_join_nonempty)
  have conf: "load_model_conf e src_path None s = Inr conf"
    using assms(1,2) by (simp add: load_model_conf_def)
  have g: "get_code_dirs s (os_path_join src_path c) None
             = Inr (map (os_path_join (os_path_join src_path c)) (filter keep_entry names))"
    using assms(5) by (simp add: get_code_dirs_def comprehension_map_filter)
  show "sys_path (snd (load_pyfunc e src_path None sw s))
           = search_path_entries (os_path_join src_path c) (filter keep_entry names) @ sys_path s"
    using conf assms(3,4) g
    by (simp add: load_pyfunc_def Let_def search_path_entries_def split: option.splits sum.splits)
  have g': "get_code_dirs s (os_path_join src_path c) (Some (os_path_join dst_path c))
             = Inr (map (os_path_join (os_path_join dst_path c)) (filter keep_entry names))"
    using assms(5) ne by (simp add: get_code_dirs_def comprehension_map_filter)
  then show l: "loader_src_code_dirs s src_path dst_path c
           = Inr (search_path_entries (os_path_join dst_path c) (filter keep_entry names))"
    by (simp add: loader_src_code_dirs_def Let_def search_path_entries_def)
  show "conf MAIN = Some main \<Longrightarrow>
         get_module_loader_src e src_path dst_path s
           = Inr (loader_template_format
                    (update_path_stmt
                       (search_path_entries (os_path_join dst_path c) (filter keep_entry names)))
                    main
                    (case conf DATA of Some d \<Rightarrow> os_path_join dst_path d | None \<Rightarrow> dst_path))"
    using assms(1,2,3,4) l by (simp add: get_module_loader_src_def Let_def)
qed

text \<open>
  C9. The claim has the emitted script put in front of the search path, for every
  deployment path, the list \<^verbatim>\<open>load_pyfunc\<close> puts there for the artifact, rewritten under the
  deployment path. \<^verbatim>\<open>get_module_loader_src\<close> does build that list, from the same manifest
  check and the same listing, in the same order (\<open>kept\<close> below is the one list of entries
  both use); but it writes each directory between single quotes as it is. When the code
  directory under the deployment path has a single quote in it, the statement emitted
  does not read back as that list.
\<close>

theorem get_module_loader_src_unescaped_quote:
  assumes "Model_load e s (os_path_join src_path ''MLmodel'') = Inr m"
      and "flavors m FLAVOR_NAME = Some conf"
      and "conf CODE = Some c" and "c \<noteq> []"
      and "conf MAIN = Some main"
      and "os_listdir s (os_path_join src_path c) = Inr names"
      and "CHR 0x27 \<in> set (os_path_join dst_path c)"
  shows "\<exists>kept.
           sys_path (snd (load_pyfunc e src_path None sw s))
             = search_path_entries (os_path_join src_path c) kept @ sys_path s
         \<and> get_module_loader_src e src_path dst_path s
             = Inr (loader_template_format
                      (update_path_stmt (search_path_entries (os_path_join dst_path c) kept))
                      main
                      (case conf DATA of Some d \<Rightarrow> os_path_join dst_path d | None \<Rightarrow> dst_path))
         \<and> parse_update_path (update_path_stmt (search_path_entries (os_path_join dst_path c) kept))
             \<noteq> Some (search_path_entries (os_path_join dst_path c) kept)"
proof -
  let ?kept = "filter keep_entry names"
  have "os_path_join dst_path c \<in> set (search_path_entries (os_path_join dst_path c) ?kept)"
    by (simp add: search_path_entries_def)
  from quote_not_read_back [OF this assms(7)]
  have "parse_update_path (update_path_stmt (search_path_entries (os_path_join dst_path c) ?kept))
             \<noteq> Some (search_path_entries (os_path_join dst_path c) ?kept)" .
  with loader_and_script_entries(1) [OF assms(1,2,3,4,6), of sw]
    loader_and_script_entries(3) [OF assms(1,2,3,4,6,5), of dst_path]
  show ?thesis by blast
qed

lemma ex_script_quote:
  "get_module_loader_src ex_env ''m'' ''/opt/bob's'' ex_state =
     Inr (loader_template_format
            ''sys.path = [os.path.abspath('/opt/bob's/code'),os.path.abspath('/opt/bob's/code/lib')] + sys.path; ''
            ''mlflow.sklearn'' ''/opt/bob's/data/model.pkl'')"
  "parse_update_path
     ''sys.path = [os.path.abspath('/opt/bob's/code'),os.path.abspath('/opt/bob's/code/lib')] + sys.path; ''
     = None"
  by code_simp+

lemma ex_script_plain:
  "get_module_loader_src ex_env ''m'' ''/opt/ml'' ex_state =
     Inr (loader_template_format
            ''sys.path = [os.path.abspath('/opt/ml/code'),os.path.abspath('/opt/ml/code/lib')] + sys.path; ''
            ''mlflow.sklearn'' ''/opt/ml/data/model.pkl'')"
  "script_prepended_dirs ''/srv''
     ''sys.path = [os.path.abspath('/opt/ml/code'),os.path.abspath('/opt/ml/code/lib')] + sys.path; ''
     = Some [''/opt/ml/code'', ''/opt/ml/code/lib'']"
  "script_prepended_dirs ''/srv''
     ''sys.path = [os.path.abspath('ml/code'),os.path.abspath('ml/code/lib')] + sys.path; ''
     = Some [''/srv/ml/code'', ''/srv/ml/code/lib'']"
  by code_simp+

lemma ex_Model_load: "Model_load ex_env s ''m/MLmodel'' = Inr \<lparr>flavors = [FLAVOR_NAME \<mapsto> ex_conf]\<rparr>"
  by (simp add: ex_env_def)

theorem get_module_loader_src_unescaped_quote_witness:
  "CHR 0x27 \<in> set (os_path_join ''/opt/bob's'' ''code'')
   \<and> (\<exists>kept.
         sys_path (snd (load_pyfunc ex_env ''m'' None False ex_state))
           = search_path_entries (os_path_join ''m'' ''code'') kept @ sys_path ex_state
       \<and> get_module_loader_src ex_env ''m'' ''/opt/bob's'' ex_state
           = Inr (loader_template_format
                    (update_path_stmt (search_path_entries (os_path_join ''/opt/bob's'' ''code'') kept))
                    ''mlflow.sklearn'' (os_path_join ''/opt/bob's'' ''data/model.pkl''))
       \<and> parse_update_path
             (update_path_stmt (search_path_entries (os_path_join ''/opt/bob's'' ''code'') kept))
           \<noteq> Some (search_path_entries (os_path_join ''/opt/bob's'' ''code'') kept))
   \<and> sys_path (snd (load_pyfunc ex_env ''m'' None False ex_state))
       = [''m/code'', ''m/code/lib'', ''/usr/lib/python3'']
   \<and> get_module_loader_src ex_env ''m'' ''/opt/bob's'' ex_state =
       Inr (loader_template_format
              ''sys.path = [os.path.abspath('/opt/bob's/code'),os.path.abspath('/opt/bob's/code/lib')] + sys.path; ''
              ''mlflow.sklearn'' ''/opt/bob's/data/model.pkl'')
   \<and> parse_update_path
         ''sys.path = [os.path.abspath('/opt/bob's/code'),os.path.abspath('/opt/bob's/code/lib')] + sys.path; ''
       = None"
proof -
  have j: "os_path_join ''m'' ''MLmodel'' = ''m/MLmodel''"
    by (simp add: os_path_join_def startswith_def endswith_def)
  have a: "Model_load ex_env ex_state (os_path_join ''m'' ''MLmodel'')
             = Inr \<lparr>flavors = [FLAVOR_NAME \<mapsto> ex_conf]\<rparr>"
    by (simp add: j ex_Model_load)
  have b: "flavors \<lparr>flavors = [FLAVOR_NAME \<mapsto> ex_conf]\<rparr> FLAVOR_NAME = Some ex_conf"
    by simp
  have l: "os_listdir ex_state (os_path_join ''m'' ''code'')
             = Inr [''model_code.py'', ''lib'', ''__pycache__'', ''model_code.pyc'']"
    by (simp add: ex_joins ex_listdir_code)
  have n: "''code'' \<noteq> []" by simp
  have q: "CHR 0x27 \<in> set (os_path_join ''/opt/bob's'' ''code'')"
    by (simp add: os_path_join_def startswith_def endswith_def)
  have s: "sys_path (snd (load_pyfunc ex_env ''m'' None False ex_state))
             = [''m/code'', ''m/code/lib'', ''/usr/lib/python3'']"
    by (simp add: ex_load_pyfunc) (simp add: ex_state_def)
  from get_module_loader_src_unescaped_quote [OF a b ex_conf_simps(1) n ex_conf_simps(3) l q, of False]
  have "\<exists>kept.
         sys_path (snd (load_pyfunc ex_env ''m'' None False ex_state))
           = search_path_entries (os_path_join ''m'' ''code'') kept @ sys_path ex_state
       \<and> get_module_loader_src ex_env ''m'' ''/opt/bob's'' ex_state
           = Inr (loader_template_format
                    (update_path_stmt (search_path_entries (os_path_join ''/opt/bob's'' ''code'') kept))
                    ''mlflow.sklearn'' (os_path_join ''/opt/bob's'' ''data/model.pkl''))
       \<and> parse_update_path
             (update_path_stmt (search_path_entries (os_path_join ''/opt/bob's'' ''code'') kept))
           \<noteq> Some (search_path_entries (os_path_join ''/opt/bob's'' ''code'') kept)"
    by (simp add: ex_conf_simps)
  with q s ex_script_quote show ?thesis by blast
qed

text \<open>
  Where neither the code directory under the deployment path nor an entry of the listing
  has a quote, a backslash or a line break in it, the statement reads back as exactly
  the rewritten list, and the script puts it, each directory made absolute, in front of
  the search path.
\<close>

lemma get_module_loader_src_reads_back:
  assumes "Model_load e s (os_path_join src_path ''MLmodel'') = Inr m"
      and "flavors m FLAVOR_NAME = Some conf"
      and "conf CODE = Some c" and "c \<noteq> []"
      and "os_listdir s (os_path_join src_path c) = Inr names"
      and "list_all literal_char (os_path_join dst_path c)"
      and "list_all (list_all literal_char) names"
  shows "\<exists>kept dirs.
           sys_path (snd (load_pyfunc e src_path None sw s))
             = search_path_entries (os_path_join src_path c) kept @ sys_path s
         \<and> dirs = search_path_entries (os_path_join dst_path c) kept
         \<and> loader_src_code_dirs s src_path dst_path c = Inr dirs
         \<and> parse_update_path (update_path_stmt dirs) = Some dirs
         \<and> script_prepended_dirs wd (update_path_stmt dirs) = Some (map (os_path_abspath wd) dirs)"
proof -
  let ?kept = "filter keep_entry names"
  let ?dirs = "search_path_entries (os_path_join dst_path c) ?kept"
  have "list_all literal_char (os_path_join (os_path_join dst_path c) x)" if "x \<in> set names" for x
    using that assms(6,7) by (rule_tac literal_char_join) (simp_all add: list_all_iff)
  then have "list_all (list_all literal_char) ?dirs"
    using assms(6) by (auto simp add: search_path_entries_def list_all_iff)
  moreover have "?dirs \<noteq> []" by (simp add: search_path_entries_def)
  ultimately have p: "parse_update_path (update_path_stmt ?dirs) = Some ?dirs"
    by (intro update_path_stmt_reads_back)
  then have "script_prepended_dirs wd (update_path_stmt ?dirs) = Some (map (os_path_abspath wd) ?dirs)"
    by (simp add: script_prepended_dirs_def)
  with p loader_and_script_entries(1,2) [OF assms(1-5)] show ?thesis by blast
qed

section \<open>Properties of the batched prediction wrapper\<close>

lemma digit_char_inj:
  assumes "a < 10" "b < 10" "digit_char a = digit_char b"
  shows "a = b"
proof -
  have c: "\<And>d. d < 10 \<Longrightarrow> d \<in> {0, 1, 2, 3, 4, 5, 6, 7, 8, 9::nat}"
    by auto
  from c [OF assms(1)] c [OF assms(2)] assms(3) show ?thesis
    by (auto simp add: digit_char_def)
qed

lemma str_nat_nonempty: "str_nat n \<noteq> []"
  by (subst str_nat.simps) simp

lemma str_nat_last: "last (str_nat n) = digit_char (n mod 10)"
  by (subst str_nat.simps) simp

lemma str_nat_butlast: "butlast (str_nat n) = (if n < 10 then [] else str_nat (n div 10))"
  by (subst str_nat.simps) simp

lemma str_nat_inj: "str_nat a = str_nat b \<Longrightarrow> a = b"
proof (induction a arbitrary: b rule: less_induct)
  case (less a)
  from less.prems have l: "digit_char (a mod 10) = digit_char (b mod 10)"
    using str_nat_last [of a] str_nat_last [of b] by simp
  then have m: "a mod 10 = b mod 10"
    by (intro digit_char_inj) simp_all
  from less.prems have bl: "butlast (str_nat a) = butlast (str_nat b)" by simp
  show ?case
  proof (cases "a < 10")
    case True
    with bl have "b < 10"
      using str_nat_nonempty [of "b div 10"] by (auto simp add: str_nat_butlast split: if_splits)
    with True m show ?thesis by simp
  next
    case False
    with bl have nb: "\<not> b < 10"
      using str_nat_nonempty [of "a div 10"] by (auto simp add: str_nat_butlast split: if_splits)
    with False bl have "str_nat (a div 10) = str_nat (b div 10)"
      by (simp add: str_nat_butlast)
    moreover from False have "a div 10 < a" by simp
    ultimately have "a div 10 = b div 10" by (rule less.IH [rotated])
    with m show ?thesis
      by (metis div_mult_mod_eq)
  qed
qed

lemma predict_columns_eq: "predict_columns args = map str_nat [0..<length args]"
proof -
  have "predict_columns args = map (\<lambda>p. str_nat (fst p)) (List.enumerate 0 args)"
    by (simp add: predict_columns_def case_prod_beta)
  then show ?thesis
    by (simp add: enumerate_eq_zip map_fst_zip flip: map_map [unfolded comp_def])
qed

lemma foldl_schema:
  assumes "inj f"
  shows "foldl (\<lambda>d (i, arg). d(f i \<mapsto> arg)) m (List.enumerate k xs) (f j) =
           (if k \<le> j \<and> j < k + length xs then Some (xs ! (j - k)) else m (f j))"
proof (induction xs arbitrary: m k)
  case Nil
  then show ?case by auto
next
  case (Cons x xs)
  from assms have fe: "\<And>a b. (f a = f b) = (a = b)" by (simp add: inj_eq)
  let ?F = "\<lambda>d (i, arg). d(f i \<mapsto> arg)"
  have "foldl ?F m (List.enumerate k (x # xs)) (f j)
          = foldl ?F (m(f k \<mapsto> x)) (List.enumerate (Suc k) xs) (f j)"
    by simp
  also have "\<dots> = (if Suc k \<le> j \<and> j < Suc k + length xs then Some (xs ! (j - Suc k))
                    else (m(f k \<mapsto> x)) (f j))"
    by (rule Cons.IH)
  also have "\<dots> = (if k \<le> j \<and> j < k + length (x # xs) then Some ((x # xs) ! (j - k))
                    else m (f j))"
    by (auto simp add: fe nth_Cons' Suc_diff_le)
  finally show ?case .
qed

lemma predict_schema_nth:
  "i < length args \<Longrightarrow> predict_schema args (str_nat i) = Some (args ! i)"
proof -
  have "inj str_nat" by (rule injI) (rule str_nat_inj)
  from foldl_schema [OF this, of Map.empty 0 args i] show "i < length args \<Longrightarrow> ?thesis"
    by (simp add: predict_schema_def)
qed

lemma predict_table:
  "pandas_DataFrame (predict_schema args) (predict_columns args) =
     map (\<lambda>i. (str_nat i, Some (args ! i))) [0..<length args]"
  by (simp add: pandas_DataFrame_def predict_columns_eq predict_schema_nth)

lemma str_nat_2_10: "str_nat 2 = ''2''" "str_nat 10 = ''10''"
  by (simp_all add: str_nat.simps digit_char_def)

lemma not_sorted_columns:
  assumes "11 \<le> length args"
  shows "\<not> sorted (predict_columns args)"
proof
  assume "sorted (predict_columns args)"
  then have "predict_columns args ! 2 \<le> predict_columns args ! 10"
    using assms by (intro sorted_nth_mono) (simp_all add: predict_columns_eq)
  moreover have "\<And>i. i < length args \<Longrightarrow> predict_columns args ! i = str_nat i"
    by (simp add: predict_columns_eq)
  ultimately have "str_nat 2 \<le> str_nat 10"
    using assms by simp
  then show False
    by (simp add: str_nat_2_10)
qed

lemma columns_11:
  assumes "length args = 11"
  shows "predict_columns args = [''0'', ''1'', ''2'', ''3'', ''4'', ''5'', ''6'', ''7'', ''8'', ''9'', ''10'']"
proof -
  have "[0..<11] = [0, 1, 2, 3, 4, 5, 6, 7, 8, 9, 10::nat]"
    by (simp add: upt_rec)
  with assms show ?thesis
    by (simp add: predict_columns_eq str_nat.simps digit_char_def)
qed

lemma sort_11:
  "sort [''0'', ''1'', ''2'', ''3'', ''4'', ''5'', ''6'', ''7'', ''8'', ''9'', ''10'']
    = [''0'', ''1'', ''10'', ''2'', ''3'', ''4'', ''5'', ''6'', ''7'', ''8'', ''9'']"
  by simp

text \<open>
  C8. For any number of positional input columns the wrapper labels them
  \<^verbatim>\<open>str(0), ..., str(n-1)\<close> in that order, and the table it hands to the model has, under
  the label \<^verbatim>\<open>str(i)\<close>, the \<open>i\<close>-th input column. It returns the model's output sequence
  as it is, in a \<^verbatim>\<open>Series\<close>. For eleven columns the labels are \<^verbatim>\<open>"0"\<close> to \<^verbatim>\<open>"10"\<close>, which is
  not their lexicographic order; from eleven columns on the label list is never sorted.
\<close>

theorem predict_column_order:
  "predict_columns args = map str_nat [0..<length args]
   \<and> pandas_DataFrame (predict_schema args) (predict_columns args)
       = map (\<lambda>i. (str_nat i, Some (args ! i))) [0..<length args]
   \<and> (\<forall>model_predict. get_or_load archive_path = Inr model_predict \<longrightarrow>
         predict get_or_load archive_path args =
           (case model_predict (map (\<lambda>i. (str_nat i, Some (args ! i))) [0..<length args]) of
              Inl err \<Rightarrow> Inl err
            | Inr result \<Rightarrow> Inr (Series result)))
   \<and> (length args = 11 \<longrightarrow>
         predict_columns args
           = [''0'', ''1'', ''2'', ''3'', ''4'', ''5'', ''6'', ''7'', ''8'', ''9'', ''10'']
         \<and> predict_columns args \<noteq> sort (predict_columns args))
   \<and> (11 \<le> length args \<longrightarrow> \<not> sorted (predict_columns args))"
proof -
  have "\<forall>model_predict. get_or_load archive_path = Inr model_predict \<longrightarrow>
         predict get_or_load archive_path args =
           (case model_predict (map (\<lambda>i. (str_nat i, Some (args ! i))) [0..<length args]) of
              Inl err \<Rightarrow> Inl err
            | Inr result \<Rightarrow> Inr (Series result))"
    by (simp add: predict_def Let_def predict_table)
  moreover have "length args = 11 \<longrightarrow> predict_columns args \<noteq> sort (predict_columns args)"
  proof
    assume "length args = 11"
    then have "\<not> sorted (predict_columns args)" by (intro not_sorted_columns) simp
    then show "predict_columns args \<noteq> sort (predict_columns args)"
      using sorted_sort [of "predict_columns args"] by metis
  qed
  ultimately show ?thesis
    using predict_columns_eq [of args] predict_table [of args] columns_11 [of args]
      not_sorted_columns [of args]
    by blast
qed

theorem predict_column_order_witness:
  "length ex_args = 11
   \<and> predict_columns ex_args
       = [''0'', ''1'', ''2'', ''3'', ''4'', ''5'', ''6'', ''7'', ''8'', ''9'', ''10'']
   \<and> sort (predict_columns ex_args)
       = [''0'', ''1'', ''10'', ''2'', ''3'', ''4'', ''5'', ''6'', ''7'', ''8'', ''9'']
   \<and> predict_columns ex_args \<noteq> sort (predict_columns ex_args)
   \<and> \<not> sorted (predict_columns ex_args)
   \<and> predict (\<lambda>a. Inr ex_model_predict) ''archive'' ex_args = Inr (Series [10, 11])"
proof -
  note t = predict_column_order [of ex_args "\<lambda>a. Inr ex_model_predict" "''archive''"]
  have l: "length ex_args = 11" by (simp add: ex_args_def)
  from t l have c: "predict_columns ex_args
       = [''0'', ''1'', ''2'', ''3'', ''4'', ''5'', ''6'', ''7'', ''8'', ''9'', ''10'']"
    by blast
  from t l have n: "predict_columns ex_args \<noteq> sort (predict_columns ex_args)"
    by blast
  from t l have ns: "\<not> sorted (predict_columns ex_args)"
    by linarith
  from t have "predict (\<lambda>a. Inr ex_model_predict) ''archive'' ex_args =
           (case ex_model_predict (map (\<lambda>i. (str_nat i, Some (ex_args ! i))) [0..<length ex_args]) of
              Inl err \<Rightarrow> Inl err
            | Inr result \<Rightarrow> Inr (Series result))"
    by blast
  moreover have "[0..<11] = [0, 1, 2, 3, 4, 5, 6, 7, 8, 9, 10::nat]"
    by (simp add: upt_rec)
  ultimately have p: "predict (\<lambda>a. Inr ex_model_predict) ''archive'' ex_args = Inr (Series [10, 11])"
    by (simp add: l ex_model_predict_def) (simp add: ex_args_def)
  from l c n ns p show ?thesis
    by (simp add: sort_11)
qed

section \<open>Properties of saving\<close>

text \<open>
  C1. When the destination path exists, whatever stands there (an empty directory, a
  directory with entries, a file), \<^verbatim>\<open>save_model\<close> ends with the path-exists failure, which
  the source raises as a plain \<^verbatim>\<open>Exception\<close> with the message below, and the state it
  leaves is the state it was given: no directory has been made and nothing copied.
\<close>

theorem save_model_existing_path:
  assumes "os_path_exists s dst_path"
  shows "save_model e dst_path loader_module data_path code_path conda_env m s =
           (Inl (Exception (''Path '' @ [CHR 0x27] @ dst_path @ [CHR 0x27] @ '' already exists'')), s)"
  using assms by (simp add: save_model_def path_exists_error_def)

lemma ex_exists:
  "os_path_exists ex_state ''empty''" "os_path_exists ex_state ''m''"
  "os_listdir ex_state ''empty'' = Inr []"
  "os_listdir ex_state ''m'' = Inr [''MLmodel'', ''code'', ''data'']"
  by code_simp+

theorem save_model_existing_path_witness:
  "os_path_exists ex_state ''empty'' \<and> os_listdir ex_state ''empty'' = Inr []
   \<and> save_model ex_env ''empty'' ''mlflow.sklearn'' (Some ''m/data'') [''a.py''] None ex_new_model ex_state
       = (Inl (Exception (''Path '' @ [CHR 0x27] @ ''empty'' @ [CHR 0x27] @ '' already exists'')), ex_state)
   \<and> os_path_exists ex_state ''m'' \<and> os_listdir ex_state ''m'' = Inr [''MLmodel'', ''code'', ''data'']
   \<and> save_model ex_env ''m'' ''mlflow.sklearn'' (Some ''m/data'') [''a.py''] None ex_new_model ex_state
       = (Inl (Exception (''Path '' @ [CHR 0x27] @ ''m'' @ [CHR 0x27] @ '' already exists'')), ex_state)"
  using save_model_existing_path [OF ex_exists(1), of ex_env "''mlflow.sklearn''" "Some ''m/data''"
          "[''a.py'']" None ex_new_model]
        save_model_existing_path [OF ex_exists(2), of ex_env "''mlflow.sklearn''" "Some ''m/data''"
          "[''a.py'']" None ex_new_model]
        ex_exists
  by simp

lemma ex_save_two_code:
  "(case fst (save_model ex_env ''out'' ''mlflow.sklearn'' None [''a.py'', ''b.py''] None ex_new_model ex_state) of
      Inl err \<Rightarrow> err = FileExistsError ''out/code''
    | Inr _ \<Rightarrow> False)"
  by code_simp

lemma ex_save_two:
  "fst (save_model ex_env ''out'' ''mlflow.sklearn'' None [''a.py'', ''b.py''] None ex_new_model ex_state)
    = Inl (FileExistsError ''out/code'')"
  using ex_save_two_code by (simp split: sum.splits)

lemma ex_save_two_fs:
  "fs (snd (save_model ex_env ''out'' ''mlflow.sklearn'' None [''a.py'', ''b.py''] None ex_new_model ex_state))
    = put [''work'', ''out''] (Dir [(''code'', Dir [(''a.py'', File ''x = 1'')])]) ex_fs"
  by code_simp

lemma ex_save_one:
  "(case save_model ex_env ''out'' ''mlflow.sklearn'' None [''a.py''] None ex_new_model ex_state of
      (Inl err, s') \<Rightarrow> False
    | (Inr m', s') \<Rightarrow>
        (case flavors m' FLAVOR_NAME of
           None \<Rightarrow> False
         | Some conf \<Rightarrow> conf CODE = Some ''code'')
        \<and> lookup (fs s') [''work'', ''out'', ''code'', ''a.py''] = Some (File ''x = 1''))"
  by code_simp

lemma lookup_ancestor_dir:
  "lookup n (qs @ r) \<noteq> None \<Longrightarrow> r \<noteq> [] \<Longrightarrow> \<exists>es. lookup n qs = Some (Dir es)"
proof (induction qs arbitrary: n)
  case Nil
  then show ?case by (cases n; cases r) auto
next
  case (Cons c cs)
  then show ?case
    by (cases n) (auto split: option.splits)
qed

lemma lookup_put_same:
  "cs \<noteq> [] \<Longrightarrow> lookup n (butlast cs) = Some (Dir es) \<Longrightarrow> lookup (put cs new n) cs = Some new"
proof (induction cs arbitrary: n)
  case Nil
  then show ?case by simp
next
  case (Cons c cs)
  show ?case
  proof (cases "cs = []")
    case True
    with Cons.prems show ?thesis
      by (auto simp add: update_conv' split: option.splits)
  next
    case False
    with Cons.prems obtain es0 n1 where n: "n = Dir es0" "map_of es0 c = Some n1"
        "lookup n1 (butlast cs) = Some (Dir es)"
      by (cases n) (auto split: option.splits)
    from Cons.IH [OF False n(3)] n show ?thesis
      by (simp add: update_conv')
  qed
qed

lemma lookup_put_other:
  "lookup n ps \<noteq> None \<Longrightarrow> \<forall>r. r \<noteq> [] \<longrightarrow> ps \<noteq> qs @ r \<Longrightarrow> lookup (put qs new n) ps \<noteq> None"
proof (induction qs arbitrary: n ps)
  case Nil
  then have "ps = []" by (cases ps) auto
  then show ?case by simp
next
  case (Cons c cs)
  show ?case
  proof (cases n)
    case (File x)
    with Cons.prems show ?thesis by simp
  next
    case (Dir es)
    show ?thesis
    proof (cases ps)
      case Nil
      then show ?thesis by simp
    next
      case (Cons d ds)
      with Dir Cons.prems(1) obtain n' where n': "map_of es d = Some n'" "lookup n' ds \<noteq> None"
        by (auto split: option.splits)
      show ?thesis
      proof (cases "d = c")
        case False
        with Dir Cons n' show ?thesis
          by (auto simp add: update_conv' map_add_def split: option.splits)
      next
        case True
        from Cons.prems(2) Cons True have "\<forall>r. r \<noteq> [] \<longrightarrow> ds \<noteq> cs @ r" by auto
        from Cons.IH [OF n'(2) this] have "lookup (put cs new n') ds \<noteq> None" .
        with Dir Cons n' True show ?thesis
          by (simp add: update_conv')
      qed
    qed
  qed
qed

lemma lookup_makedirs_node:
  "makedirs_node qs n = Some n' \<Longrightarrow> lookup n ps \<noteq> None \<Longrightarrow> lookup n' ps \<noteq> None"
proof (induction qs arbitrary: n n' ps)
  case Nil
  then show ?case by simp
next
  case (Cons c cs)
  show ?case
  proof (cases n)
    case (File x)
    with Cons.prems show ?thesis by simp
  next
    case (Dir es)
    show ?thesis
    proof (cases ps)
      case Nil
      then show ?thesis by simp
    next
      case (Cons d ds)
      with Dir Cons.prems(2) obtain m where m: "map_of es d = Some m" "lookup m ds \<noteq> None"
        by (auto split: option.splits)
      show ?thesis
      proof (cases "map_of es c")
        case None
        with Dir Cons.prems(1) obtain k where "n' = Dir (es @ [(c, k)])"
          by (auto split: option.splits)
        with Cons m None show ?thesis
          by (auto simp add: map_add_def)
      next
        case (Some n1)
        with Dir Cons.prems(1) obtain k where k: "makedirs_node cs n1 = Some k"
            "n' = Dir (AList.update c k es)"
          by (auto split: option.splits)
        show ?thesis
        proof (cases "d = c")
          case True
          with m Some have "lookup n1 ds \<noteq> None" by simp
          from Cons.IH [OF k(1) this] k(2) Cons True show ?thesis
            by (simp add: update_conv')
        next
          case False
          with k(2) Cons m show ?thesis
            by (simp add: update_conv')
        qed
      qed
    qed
  qed
qed

lemma resolve_cwd: "cwd s' = cwd s \<Longrightarrow> resolve s' p = resolve s p"
  by (simp add: resolve_def)

lemma os_mkdir_exists:
  assumes "os_mkdir p s = Inr s1"
  shows "lookup (fs s1) (resolve s p) \<noteq> None \<and> cwd s1 = cwd s"
proof -
  let ?cs = "resolve s p"
  from assms have none: "lookup (fs s) ?cs = None"
    by (auto simp add: os_mkdir_def Let_def split: if_splits)
  then have ne: "?cs \<noteq> []" by (cases "?cs") auto
  from assms none obtain es where par: "lookup (fs s) (butlast ?cs) = Some (Dir es)"
      and s1: "s1 = s\<lparr>fs := put ?cs (Dir []) (fs s)\<rparr>"
    by (auto simp add: os_mkdir_def Let_def split: if_splits option.splits node.splits)
  from lookup_put_same [OF ne par] s1 show ?thesis by simp
qed

lemma os_mkdir_existing:
  "p \<noteq> [] \<Longrightarrow> lookup (fs s) (resolve s p) \<noteq> None \<Longrightarrow> os_mkdir p s = Inl (FileExistsError p)"
  by (simp add: os_mkdir_def Let_def)

lemma write_file_keeps:
  assumes "write_file p c s = Inr s2" and "lookup (fs s) ps \<noteq> None"
  shows "lookup (fs s2) ps \<noteq> None \<and> cwd s2 = cwd s"
proof -
  let ?qs = "resolve s p"
  from assms(1) have nd: "\<forall>es. lookup (fs s) ?qs \<noteq> Some (Dir es)"
      and s2: "s2 = s\<lparr>fs := put ?qs (File c) (fs s)\<rparr>"
    by (auto simp add: write_file_def Let_def split: if_splits option.splits node.splits)
  have "\<forall>r. r \<noteq> [] \<longrightarrow> ps \<noteq> ?qs @ r"
  proof (intro allI impI notI)
    fix r assume "r \<noteq> []" "ps = ?qs @ r"
    with assms(2) lookup_ancestor_dir [of "fs s" ?qs r] nd show False by auto
  qed
  from lookup_put_other [OF assms(2) this] s2 show ?thesis by simp
qed

lemma shutil_copy_keeps:
  assumes "shutil_copy src dst s = Inr s2" and "lookup (fs s) ps \<noteq> None"
  shows "lookup (fs s2) ps \<noteq> None \<and> cwd s2 = cwd s"
proof -
  from assms(1) obtain p c where "write_file p c s = Inr s2"
    by (auto simp add: shutil_copy_def Let_def split: option.splits node.splits if_splits)
  from write_file_keeps [OF this assms(2)] show ?thesis .
qed

lemma os_makedirs_keeps:
  assumes "os_makedirs p s = Inr s1" and "lookup (fs s) ps \<noteq> None"
  shows "lookup (fs s1) ps \<noteq> None \<and> cwd s1 = cwd s \<and> lookup (fs s) (resolve s p) = None"
proof -
  from assms(1) obtain n where n: "makedirs_node (resolve s p) (fs s) = Some n" "s1 = s\<lparr>fs := n\<rparr>"
      and none: "lookup (fs s) (resolve s p) = None"
    by (auto simp add: os_makedirs_def Let_def split: if_splits option.splits)
  from lookup_makedirs_node [OF n(1) assms(2)] n(2) none show ?thesis by simp
qed

lemma shutil_copytree_keeps:
  assumes "shutil_copytree src dst s = Inr s2" and "lookup (fs s) ps \<noteq> None"
  shows "lookup (fs s2) ps \<noteq> None \<and> cwd s2 = cwd s"
proof -
  from assms(1) obtain s1 tree where m: "os_makedirs dst s = Inr s1"
      and s2: "s2 = s1\<lparr>fs := put (resolve s1 dst) tree (fs s1)\<rparr>"
    by (auto simp add: shutil_copytree_def split: sum.splits option.splits if_splits)
  from os_makedirs_keeps [OF m assms(2)] have k: "lookup (fs s1) ps \<noteq> None" "cwd s1 = cwd s"
      "lookup (fs s) (resolve s dst) = None"
    by simp_all
  have "\<forall>r. r \<noteq> [] \<longrightarrow> ps \<noteq> resolve s dst @ r"
  proof (intro allI impI notI)
    fix r assume "r \<noteq> []" "ps = resolve s dst @ r"
    with assms(2) lookup_ancestor_dir [of "fs s" "resolve s dst" r] k(3) show False by auto
  qed
  then have "\<forall>r. r \<noteq> [] \<longrightarrow> ps \<noteq> resolve s1 dst @ r"
    by (simp add: resolve_cwd [OF k(2)])
  from lookup_put_other [OF k(1) this] s2 k(2) show ?thesis by simp
qed

lemma copy_file_or_tree_code_dir:
  assumes "copy_file_or_tree src dst ''code'' s = (Inr name, s2)"
  shows "lookup (fs s2) (resolve s2 (os_path_join dst ''code'')) \<noteq> None"
proof -
  let ?d = "os_path_join dst ''code''"
  from assms obtain s1 where mk: "os_mkdir ?d s = Inr s1"
      and cp: "shutil_copy src (os_path_join dst (os_path_join ''code''
                  (os_path_basename (os_path_abspath (cwd s) src)))) s1 = Inr s2
             \<or> shutil_copytree src (os_path_join dst (os_path_join ''code''
                  (os_path_basename (os_path_abspath (cwd s) src)))) s1 = Inr s2"
    by (auto simp add: copy_file_or_tree_def Let_def split: sum.splits if_splits)
  from os_mkdir_exists [OF mk] have e: "lookup (fs s1) (resolve s ?d) \<noteq> None" "cwd s1 = cwd s"
    by simp_all
  from cp have "lookup (fs s2) (resolve s ?d) \<noteq> None \<and> cwd s2 = cwd s1"
    using shutil_copy_keeps [OF _ e(1)] shutil_copytree_keeps [OF _ e(1)] by blast
  with e(2) show ?thesis
    by (simp add: resolve_cwd [of s2 s])
qed

lemma copy_file_or_tree_code_dir_exists:
  assumes "lookup (fs s) (resolve s (os_path_join dst ''code'')) \<noteq> None"
  shows "copy_file_or_tree src dst ''code'' s = (Inl (FileExistsError (os_path_join dst ''code'')), s)"
proof -
  have "os_path_join dst ''code'' \<noteq> []" by (rule os_path_join_nonempty) simp
  from os_mkdir_existing [OF this assms] show ?thesis
    by (simp add: copy_file_or_tree_def Let_def)
qed

lemma copy_code_paths_two:
  "\<exists>err. fst (copy_code_paths (p1 # p2 # rest) dst s) = Inl err"
proof (cases "copy_file_or_tree p1 dst ''code'' s")
  case (Pair r s1)
  show ?thesis
  proof (cases r)
    case (Inl err)
    with Pair show ?thesis by simp
  next
    case (Inr name)
    with Pair have "lookup (fs s1) (resolve s1 (os_path_join dst ''code'')) \<noteq> None"
      by (intro copy_file_or_tree_code_dir) simp
    from copy_file_or_tree_code_dir_exists [OF this, of p2] Pair Inr show ?thesis
      by simp
  qed
qed

text \<open>
  C5. The claim has \<^verbatim>\<open>save_model\<close> succeed for two or more code paths. The code does not:
  \<^verbatim>\<open>_copy_file_or_tree\<close> makes the \<^verbatim>\<open>code\<close> directory with \<^verbatim>\<open>os.mkdir\<close> on every call, so
  when the first code path has been copied the second call finds the directory there and
  \<^verbatim>\<open>os.mkdir\<close> raises. With two or more code paths \<^verbatim>\<open>save_model\<close> never returns a model.
\<close>

theorem save_model_two_code_paths_fails:
  assumes "2 \<le> length code_path"
  shows "\<exists>err. fst (save_model e dst_path loader_module data_path code_path conda_env m s) = Inl err"
proof -
  from assms obtain p1 p2 rest where cp: "code_path = p1 # p2 # rest"
    by (cases code_path; cases "tl code_path") auto
  have l: "\<And>s2. \<exists>err. fst (copy_code_paths code_path dst_path s2) = Inl err"
    unfolding cp by (rule copy_code_paths_two)
  show ?thesis
  proof (cases "os_path_exists s dst_path")
    case True
    then show ?thesis by (simp add: save_model_def)
  next
    case False
    show ?thesis
    proof (cases "os_makedirs dst_path s")
      case (Inl err)
      with False show ?thesis by (simp add: save_model_def)
    next
      case (Inr s1)
      obtain r s2 where d: "(if truthy data_path
                   then (case copy_file_or_tree (case data_path of Some d \<Rightarrow> d | None \<Rightarrow> [])
                                dst_path ''data'' s1 of
                           (Inl err, s') \<Rightarrow> (Inl err, s')
                         | (Inr model_file, s') \<Rightarrow> (Inr (Some model_file), s'))
                   else (Inr None, s1)) = (r, s2)"
        by (cases "(if truthy data_path
                   then (case copy_file_or_tree (case data_path of Some d \<Rightarrow> d | None \<Rightarrow> [])
                                dst_path ''data'' s1 of
                           (Inl err, s') \<Rightarrow> (Inl err, s')
                         | (Inr model_file, s') \<Rightarrow> (Inr (Some model_file), s'))
                   else (Inr None, s1))") auto
      show ?thesis
      proof (cases r)
        case (Inl err)
        with False Inr d show ?thesis by (simp add: save_model_def)
      next
        case data: (Inr dat)
        from l [of s2] obtain err where "fst (copy_code_paths code_path dst_path s2) = Inl err" ..
        then obtain s3 where "copy_code_paths code_path dst_path s2 = (Inl err, s3)"
          by (cases "copy_code_paths code_path dst_path s2") auto
        with False Inr d data cp show ?thesis
          by (simp add: save_model_def)
      qed
    qed
  qed
qed

theorem save_model_two_code_paths_fails_witness:
  "2 \<le> length [''a.py'', ''b.py'']
   \<and> (\<exists>err. fst (save_model ex_env ''out'' ''mlflow.sklearn'' None [''a.py'', ''b.py''] None
                     ex_new_model ex_state) = Inl err)
   \<and> fst (save_model ex_env ''out'' ''mlflow.sklearn'' None [''a.py'', ''b.py''] None
            ex_new_model ex_state) = Inl (FileExistsError ''out/code'')"
proof -
  have l: "2 \<le> length [''a.py'', ''b.py'']" by simp
  from save_model_two_code_paths_fails [OF l, of ex_env "''out''" "''mlflow.sklearn''" None None
      ex_new_model ex_state] l ex_save_two
  show ?thesis by simp
qed

end
